theory Spec2Isabelle
  imports
    Complex_Main
    "HOL-Library.Multiset"
    "HOL-Library.Product_Lexorder"
    "HOL-Library.List_Lexorder"
    "HOL-Library.Char_ord"
    "HOL-Library.AList"
begin

chapter \<open>GrooveX music engine: playlist, favorites queue and recommender\<close>

text \<open>
  A shallow embedding of the Python sources \<^verbatim>\<open>favorites/favorite_queue.py\<close>,
  \<^verbatim>\<open>playlist/*.py\<close>, \<^verbatim>\<open>song_lookup_map/*.py\<close> and \<^verbatim>\<open>recommend/recommender.py\<close>.
  Objects are records, every method takes the object and returns the updated object next
  to its result, a raised exception is the \<open>Inl\<close> branch of a sum, and each loop is a
  recursive function. Python \<^verbatim>\<open>int\<close> is \<open>int\<close>, \<^verbatim>\<open>str\<close> is \<open>string\<close>, a \<^verbatim>\<open>dict\<close> is a map
  (or an association list where the iteration order is observed), and a finite \<^verbatim>\<open>float\<close>
  that is only compared or added is the rational number it denotes.
\<close>

section \<open>Definitions\<close>

subsection \<open>FavoriteQueue (favorites/favorite_queue.py)\<close>

text \<open>
  A heap entry is the tuple \<^verbatim>\<open>(-total_listen_time, timestamp, song_id)\<close>. Python compares
  tuples lexicographically and strings by code point, which is the order that
  \<open>Product_Lexorder\<close>, \<open>List_Lexorder\<close> and \<open>Char_ord\<close> give to this type.
\<close>

type_synonym heap_entry = "int \<times> rat \<times> string"

record SongSummary =
  ss_song_id :: string
  ss_title :: string
  ss_artist :: string
  ss_total_listen_time :: int

record FavoriteQueue =
  song_listen_times :: "string \<rightharpoonup> int"
  heap :: "heap_entry list"
  favorites :: "string \<rightharpoonup> (string \<times> string)"

definition FavoriteQueue_init :: FavoriteQueue where
  "FavoriteQueue_init = \<lparr>song_listen_times = Map.empty, heap = [], favorites = Map.empty\<rparr>"

text \<open>
  The standard module \<^verbatim>\<open>heapq\<close> is taken by its contract: \<^verbatim>\<open>heappush\<close> adds an entry,
  \<^verbatim>\<open>heappop\<close> removes and returns the least entry. The list holds the entries of the heap;
  the position of an entry inside Python's array is not observable through these two
  operations and is not modelled. \<^verbatim>\<open>heappop\<close> is only called on a non-empty heap.
\<close>

definition heappush :: "heap_entry list \<Rightarrow> heap_entry \<Rightarrow> heap_entry list" where
  "heappush h e = e # h"

definition heappop :: "heap_entry list \<Rightarrow> heap_entry \<times> heap_entry list" where
  "heappop h = (Min (set h), remove1 (Min (set h)) h)"

definition add_to_favorites :: "FavoriteQueue \<Rightarrow> string \<Rightarrow> string \<Rightarrow> string \<Rightarrow> FavoriteQueue" where
  "add_to_favorites q song_id title artist =
     (if favorites q song_id = None then
        (let q1 = q\<lparr>favorites := (favorites q)(song_id \<mapsto> (title, artist))\<rparr> in
         if song_listen_times q1 song_id = None
         then q1\<lparr>song_listen_times := (song_listen_times q1)(song_id \<mapsto> 0)\<rparr>
         else q1)
      else q)"

definition remove_from_favorites :: "FavoriteQueue \<Rightarrow> string \<Rightarrow> FavoriteQueue" where
  "remove_from_favorites q song_id =
     (if favorites q song_id \<noteq> None
      then q\<lparr>favorites := (favorites q)(song_id := None)\<rparr>
      else q)"

text \<open>\<open>now\<close> is the value that \<^verbatim>\<open>time.time()\<close> returns during the call.\<close>

definition record_listen :: "FavoriteQueue \<Rightarrow> string \<Rightarrow> int \<Rightarrow> rat \<Rightarrow> FavoriteQueue" where
  "record_listen q song_id delta_seconds now =
     (if favorites q song_id = None then q
      else
        (let total = (case song_listen_times q song_id of
                        Some t \<Rightarrow> t + delta_seconds
                      | None \<Rightarrow> delta_seconds)
         in q\<lparr>song_listen_times := (song_listen_times q)(song_id \<mapsto> total),
               heap := heappush (heap q) (- total, now, song_id)\<rparr>))"

text \<open>The body of the \<^verbatim>\<open>while\<close> loop of \<^verbatim>\<open>get_top_n\<close>, after the pop.\<close>

definition get_top_n_body ::
  "FavoriteQueue \<Rightarrow> heap_entry \<Rightarrow> SongSummary list \<Rightarrow> heap_entry list
     \<Rightarrow> SongSummary list \<times> heap_entry list" where
  "get_top_n_body q e result temp_entries =
     (case e of (neg_listen_time, timestamp, song_id) \<Rightarrow>
        (let listen_time = - neg_listen_time in
         (case (song_listen_times q song_id, favorites q song_id) of
            (Some t, Some (title, artist)) \<Rightarrow>
              if t = listen_time then
                (result @ [\<lparr>ss_song_id = song_id, ss_title = title, ss_artist = artist,
                             ss_total_listen_time = listen_time\<rparr>],
                 temp_entries @ [(neg_listen_time, timestamp, song_id)])
              else (result, temp_entries)
          | _ \<Rightarrow> (result, temp_entries))))"

function get_top_n_loop ::
  "FavoriteQueue \<Rightarrow> int \<Rightarrow> heap_entry list \<Rightarrow> SongSummary list \<Rightarrow> heap_entry list
     \<Rightarrow> heap_entry list \<times> SongSummary list \<times> heap_entry list" where
  "get_top_n_loop q n h result temp_entries =
     (if int (length result) < n \<and> h \<noteq> [] then
        (case heappop h of (e, h') \<Rightarrow>
          (case get_top_n_body q e result temp_entries of
             (result', temp_entries') \<Rightarrow> get_top_n_loop q n h' result' temp_entries'))
      else (h, result, temp_entries))"
  by pat_completeness auto
termination
proof (relation "measure (\<lambda>(q, n, h, result, temp). length h)")
  show "wf (measure (\<lambda>(q, n, h, result, temp). length h))" by simp
next
  fix q :: FavoriteQueue and n h x y
    and result xa :: "SongSummary list" and temp_entries ya :: "heap_entry list"
  assume c: "int (length result) < n \<and> h \<noteq> []" and p: "(x, y) = heappop h"
  then have "y = remove1 (Min (set h)) h" "Min (set h) \<in> set h"
    by (auto simp: heappop_def)
  moreover have "0 < length h" using c by simp
  ultimately have "length y < length h" by (simp add: length_remove1)
  then show "((q, n, y, xa, ya), (q, n, h, result, temp_entries))
               \<in> measure (\<lambda>(q, n, h, result, temp). length h)" by simp
qed

text \<open>\<^verbatim>\<open>get_top_n\<close> returns the result list; the queue with the valid entries pushed back
  is the second component.\<close>

definition get_top_n :: "FavoriteQueue \<Rightarrow> int \<Rightarrow> SongSummary list \<times> FavoriteQueue" where
  "get_top_n q n =
     (case get_top_n_loop q n (heap q) [] [] of
        (h, result, temp_entries) \<Rightarrow>
          (result, q\<lparr>heap := fold (\<lambda>entry h'. heappush h' entry) temp_entries h\<rparr>))"

text \<open>The list \<^verbatim>\<open>temp_entries\<close> at the end of the loop: the heap entry behind each
  returned summary, in result order.\<close>

definition get_top_n_entries :: "FavoriteQueue \<Rightarrow> int \<Rightarrow> heap_entry list" where
  "get_top_n_entries q n = snd (snd (get_top_n_loop q n (heap q) [] []))"

definition clear :: "FavoriteQueue \<Rightarrow> FavoriteQueue" where
  "clear q = q\<lparr>song_listen_times := Map.empty, heap := [], favorites := Map.empty\<rparr>"

subsubsection \<open>Specification functions for the loop\<close>

text \<open>
  The validity test of the loop as a predicate, the summary the body appends for a valid
  entry, and the loop replayed on the entries in ascending order: \<open>take_valid q k es\<close>
  walks \<open>es\<close>, keeps the valid entries until \<open>k\<close> are found and returns them with the
  entries it did not reach.
\<close>

definition entry_valid :: "FavoriteQueue \<Rightarrow> heap_entry \<Rightarrow> bool" where
  "entry_valid q e =
     (case e of (neg, ts, sid) \<Rightarrow>
        song_listen_times q sid = Some (- neg) \<and> favorites q sid \<noteq> None)"

definition summary_of :: "FavoriteQueue \<Rightarrow> heap_entry \<Rightarrow> SongSummary" where
  "summary_of q e =
     (case e of (neg, ts, sid) \<Rightarrow>
        (case favorites q sid of
           Some (title, artist) \<Rightarrow>
             \<lparr>ss_song_id = sid, ss_title = title, ss_artist = artist,
              ss_total_listen_time = - neg\<rparr>
         | None \<Rightarrow>
             \<lparr>ss_song_id = sid, ss_title = [], ss_artist = [], ss_total_listen_time = - neg\<rparr>))"

fun take_valid ::
  "FavoriteQueue \<Rightarrow> nat \<Rightarrow> heap_entry list \<Rightarrow> heap_entry list \<times> heap_entry list" where
  "take_valid q k [] = ([], [])"
| "take_valid q k (e # es) =
     (if k = 0 then ([], e # es)
      else if entry_valid q e then
        (case take_valid q (k - 1) es of (t, r) \<Rightarrow> (e # t, r))
      else take_valid q k es)"

definition entry_timestamp :: "heap_entry \<Rightarrow> rat" where
  "entry_timestamp e = fst (snd e)"

definition entry_song_id :: "heap_entry \<Rightarrow> string" where
  "entry_song_id e = snd (snd e)"

subsubsection \<open>Example queues\<close>

text \<open>Two favorites with the same total: \<^verbatim>\<open>"b"\<close> is listened to at time 1, \<^verbatim>\<open>"a"\<close> at
  time 2.\<close>

definition fq_tie :: FavoriteQueue where
  "fq_tie =
     record_listen
       (record_listen
          (add_to_favorites (add_to_favorites FavoriteQueue_init ''b'' ''T1'' ''A1'')
             ''a'' ''T2'' ''A2'')
          ''b'' 10 1)
       ''a'' 10 2"

text \<open>Three favorites with one listen each; \<^verbatim>\<open>"c"\<close>, the most listened, is then removed
  from the favorites, which leaves its entry in the heap.\<close>

definition fq_stale :: FavoriteQueue where
  "fq_stale =
     remove_from_favorites
       (record_listen
          (record_listen
             (record_listen
                (add_to_favorites
                   (add_to_favorites (add_to_favorites FavoriteQueue_init ''a'' ''T1'' ''A1'')
                      ''b'' ''T2'' ''A2'')
                   ''c'' ''T3'' ''A3'')
                ''a'' 30 1)
             ''b'' 20 2)
          ''c'' 50 3)
       ''c''"


subsection \<open>Strings\<close>

text \<open>
  A \<^verbatim>\<open>str\<close> is the list of its code points, and a character of type \<open>char\<close> is the code point
  of its number, from U+0000 to U+00FF. On these \<^verbatim>\<open>str.lower\<close> adds 32 to the code points of
  \<^verbatim>\<open>A\<close>..\<^verbatim>\<open>Z\<close> and of U+00C0..U+00DE other than the multiplication sign U+00D7, and leaves
  every other one as it is. The white space of \<^verbatim>\<open>str.strip\<close> and of the pattern \<^verbatim>\<open>\s\<close> is the
  code points 9..13, 28..32, U+0085 and U+00A0.
\<close>

definition is_space :: "char \<Rightarrow> bool" where
  "is_space c =
     (let k = (of_char c :: nat)
      in (9 \<le> k \<and> k \<le> 13) \<or> (28 \<le> k \<and> k \<le> 32) \<or> k = 133 \<or> k = 160)"

definition upper_letter :: "char \<Rightarrow> bool" where
  "upper_letter c =
     (let k = (of_char c :: nat)
      in (65 \<le> k \<and> k \<le> 90) \<or> (192 \<le> k \<and> k \<le> 222 \<and> k \<noteq> 215))"

definition lower_char :: "char \<Rightarrow> char" where
  "lower_char c = (if upper_letter c then char_of ((of_char c :: nat) + 32) else c)"

definition lower :: "string \<Rightarrow> string" where
  "lower s = map lower_char s"

definition strip :: "string \<Rightarrow> string" where
  "strip s = rev (dropWhile is_space (rev (dropWhile is_space s)))"

text \<open>\<^verbatim>\<open>re.sub(r'\s+', ' ', s)\<close>: every maximal run of white space becomes one blank. The flag
  says that the previous character was white space.\<close>

fun collapse_spaces :: "bool \<Rightarrow> string \<Rightarrow> string" where
  "collapse_spaces in_run [] = []"
| "collapse_spaces in_run (c # cs) =
     (if is_space c then
        (if in_run then collapse_spaces True cs else CHR '' '' # collapse_spaces True cs)
      else c # collapse_spaces False cs)"

text \<open>\<^verbatim>\<open>normalize\<close> of \<^verbatim>\<open>song_lookup_map/duplicate_cleaner.py\<close>.\<close>

definition normalize :: "string \<Rightarrow> string" where
  "normalize text = (if text = [] then [] else collapse_spaces False (lower (strip text)))"

subsection \<open>Song (playlist/song.py)\<close>

text \<open>A song is the record of its field values; two structures that share a \<^verbatim>\<open>Song\<close>
  object each hold its value.\<close>

record Song =
  song_id :: "string option"
  song_title :: string
  song_artist :: string
  song_duration :: int
  song_genre :: "string option"
  song_play_count :: int

text \<open>The constructor: \<^verbatim>\<open>Song(title, artist, duration, song_id=None, genre=None)\<close>.\<close>

definition Song_init :: "string \<Rightarrow> string \<Rightarrow> int \<Rightarrow> string option \<Rightarrow> string option \<Rightarrow> Song" where
  "Song_init title artist duration sid genre =
     \<lparr>song_id = sid, song_title = title, song_artist = artist, song_duration = duration,
      song_genre = genre, song_play_count = 0\<rparr>"

definition increment_play_count :: "Song \<Rightarrow> Song" where
  "increment_play_count s = s\<lparr>song_play_count := song_play_count s + 1\<rparr>"

subsection \<open>DuplicateCleaner and SongLookupMap (song_lookup_map)\<close>

text \<open>\<^verbatim>\<open>key_to_song_id\<close> stores whatever id the song has, \<^verbatim>\<open>None\<close> included, so its values
  are optional ids.\<close>

record DuplicateCleaner =
  keep :: string
  key_to_song_id :: "string \<rightharpoonup> string option"

definition DuplicateCleaner_init :: "string \<Rightarrow> DuplicateCleaner" where
  "DuplicateCleaner_init policy = \<lparr>keep = policy, key_to_song_id = Map.empty\<rparr>"

definition make_key :: "string \<Rightarrow> string \<Rightarrow> string" where
  "make_key title artist = normalize title @ ''|'' @ normalize artist"

definition is_duplicate :: "DuplicateCleaner \<Rightarrow> string \<Rightarrow> string \<Rightarrow> bool" where
  "is_duplicate dc title artist = (key_to_song_id dc (make_key title artist) \<noteq> None)"

definition register :: "DuplicateCleaner \<Rightarrow> string option \<Rightarrow> string \<Rightarrow> string \<Rightarrow> DuplicateCleaner" where
  "register dc sid title artist =
     dc\<lparr>key_to_song_id := (key_to_song_id dc)(make_key title artist \<mapsto> sid)\<rparr>"

definition deregister :: "DuplicateCleaner \<Rightarrow> string \<Rightarrow> string \<Rightarrow> string \<Rightarrow> DuplicateCleaner" where
  "deregister dc sid title artist =
     (if key_to_song_id dc (make_key title artist) \<noteq> None
      then dc\<lparr>key_to_song_id := (key_to_song_id dc)(make_key title artist := None)\<rparr>
      else dc)"

text \<open>\<^verbatim>\<open>cleanup_on_add\<close> returns the stored id of the duplicate under policy \<^verbatim>\<open>'first'\<close>
  (which is \<^verbatim>\<open>None\<close> when the registered song has no id) and \<^verbatim>\<open>None\<close> after registering
  the song otherwise.\<close>

definition cleanup_on_add :: "DuplicateCleaner \<Rightarrow> Song \<Rightarrow> string option \<times> DuplicateCleaner" where
  "cleanup_on_add dc song_obj =
     (case key_to_song_id dc (make_key (song_title song_obj) (song_artist song_obj)) of
        Some existing_song_id \<Rightarrow>
          if keep dc = ''first'' then (existing_song_id, dc)
          else (None, register dc (song_id song_obj) (song_title song_obj) (song_artist song_obj))
      | None \<Rightarrow>
          (None, register dc (song_id song_obj) (song_title song_obj) (song_artist song_obj)))"

record SongLookupMap =
  id_map :: "string \<rightharpoonup> Song"
  title_map :: "string \<rightharpoonup> Song"
  enable_dedupe :: bool
  duplicate_cleaner :: "DuplicateCleaner option"

definition SongLookupMap_init :: "bool \<Rightarrow> string \<Rightarrow> SongLookupMap" where
  "SongLookupMap_init dedupe policy =
     \<lparr>id_map = Map.empty, title_map = Map.empty, enable_dedupe = dedupe,
      duplicate_cleaner = (if dedupe then Some (DuplicateCleaner_init policy) else None)\<rparr>"

text \<open>The second half of \<^verbatim>\<open>SongLookupMap.add_song\<close>, after the duplicate check passed.\<close>

definition lookup_store :: "SongLookupMap \<Rightarrow> Song \<Rightarrow> SongLookupMap" where
  "lookup_store lm song =
     (let lm1 = (case song_id song of
                   Some sid \<Rightarrow> lm\<lparr>id_map := (id_map lm)(sid \<mapsto> song)\<rparr>
                 | None \<Rightarrow> lm);
          lm2 = lm1\<lparr>title_map := (title_map lm1)(song_title song \<mapsto> song)\<rparr>
      in (case duplicate_cleaner lm2 of
            Some dc \<Rightarrow>
              if enable_dedupe lm2
              then lm2\<lparr>duplicate_cleaner :=
                         Some (register dc (song_id song) (song_title song) (song_artist song))\<rparr>
              else lm2
          | None \<Rightarrow> lm2))"

definition lookup_add_song :: "SongLookupMap \<Rightarrow> Song \<Rightarrow> string option \<times> SongLookupMap" where
  "lookup_add_song lm song =
     (case duplicate_cleaner lm of
        Some dc \<Rightarrow>
          if enable_dedupe lm then
            (case cleanup_on_add dc song of
               (Some existing, dc') \<Rightarrow> (Some existing, lm\<lparr>duplicate_cleaner := Some dc'\<rparr>)
             | (None, dc') \<Rightarrow> (None, lookup_store (lm\<lparr>duplicate_cleaner := Some dc'\<rparr>) song))
          else (None, lookup_store lm song)
      | None \<Rightarrow> (None, lookup_store lm song))"

definition lookup_remove_song :: "SongLookupMap \<Rightarrow> string \<Rightarrow> bool \<times> SongLookupMap" where
  "lookup_remove_song lm sid =
     (let lm1 = lm\<lparr>id_map := (id_map lm)(sid := None)\<rparr> in
      (case id_map lm sid of
         Some song \<Rightarrow>
           if title_map lm1 (song_title song) \<noteq> None then
             (let lm2 = lm1\<lparr>title_map := (title_map lm1)(song_title song := None)\<rparr> in
              (True,
               (case duplicate_cleaner lm2 of
                  Some dc \<Rightarrow>
                    if enable_dedupe lm2
                    then lm2\<lparr>duplicate_cleaner :=
                               Some (deregister dc sid (song_title song) (song_artist song))\<rparr>
                    else lm2
                | None \<Rightarrow> lm2)))
           else (False, lm1)
       | None \<Rightarrow> (False, lm1)))"

subsection \<open>ArtistBlocklist (playlist/artist_blocklist.py)\<close>

record ArtistBlocklist =
  blocked_artists :: "string set"

definition normalize_artist :: "string \<Rightarrow> string" where
  "normalize_artist artist = (if artist = [] then [] else lower (strip artist))"

definition blocklist_add_artist :: "ArtistBlocklist \<Rightarrow> string \<Rightarrow> ArtistBlocklist" where
  "blocklist_add_artist bl artist =
     bl\<lparr>blocked_artists := insert (normalize_artist artist) (blocked_artists bl)\<rparr>"

definition is_blocked :: "ArtistBlocklist \<Rightarrow> string \<Rightarrow> bool" where
  "is_blocked bl artist = (normalize_artist artist \<in> blocked_artists bl)"

subsection \<open>DoublyLinkedList (playlist/playlist_engine.py)\<close>

text \<open>
  The list \<open>dll_chain\<close> holds the songs of the nodes reached from \<^verbatim>\<open>head\<close> along \<^verbatim>\<open>next\<close>;
  \<^verbatim>\<open>head\<close> is \<^verbatim>\<open>None\<close> when it is empty. Every method links and unlinks \<^verbatim>\<open>prev\<close> together with
  \<^verbatim>\<open>next\<close>, so \<^verbatim>\<open>prev\<close> of a node of the chain is the node before it. The attribute \<^verbatim>\<open>size\<close> is
  a counter of its own, and \<^verbatim>\<open>tail\<close> is a reference of its own: \<open>TailNone\<close> for \<^verbatim>\<open>None\<close>,
  \<open>TailAt k\<close> for the node at position \<open>k\<close> of the chain, and \<open>TailDetached\<close> for a node that
  is no longer reached from \<^verbatim>\<open>head\<close>. Only \<^verbatim>\<open>add_song\<close> follows \<^verbatim>\<open>tail\<close>, and what it links behind
  a detached node is never reached from \<^verbatim>\<open>head\<close>.

  A walk \<^verbatim>\<open>for _ in range(i): current = current.next\<close> from \<^verbatim>\<open>head\<close> ends on the node at
  position \<open>i\<close>; when the chain has no such node, the walk or the first use of \<^verbatim>\<open>current\<close>
  after it raises \<^verbatim>\<open>AttributeError\<close>. An index is a Python \<^verbatim>\<open>int\<close>.
\<close>

datatype error = IndexError | AttributeError | ZeroDivisionError

datatype tail_ref = TailNone | TailAt nat | TailDetached

record DoublyLinkedList =
  dll_chain :: "Song list"
  dll_tail :: tail_ref
  dll_size :: int

definition DoublyLinkedList_init :: DoublyLinkedList where
  "DoublyLinkedList_init = \<lparr>dll_chain = [], dll_tail = TailNone, dll_size = 0\<rparr>"

text \<open>
  Where \<^verbatim>\<open>tail\<close> refers to after the node at position \<open>i\<close> of a chain of \<open>n\<close> nodes is
  unlinked: unlinking the last node sets \<^verbatim>\<open>tail\<close> to the node before it, unlinking another
  node leaves the reference as it is, so that it is detached when it was that node.
\<close>

definition tail_after_unlink :: "tail_ref \<Rightarrow> nat \<Rightarrow> nat \<Rightarrow> tail_ref" where
  "tail_after_unlink t i n =
     (if Suc i = n then (if i = 0 then TailNone else TailAt (i - 1))
      else (case t of
              TailAt k \<Rightarrow> if k < i then TailAt k else if k = i then TailDetached else TailAt (k - 1)
            | _ \<Rightarrow> t))"

text \<open>Where \<^verbatim>\<open>tail\<close> refers to after a node is linked in at position \<open>pos\<close> by code that
  does not assign \<^verbatim>\<open>tail\<close>.\<close>

definition tail_after_link :: "tail_ref \<Rightarrow> nat \<Rightarrow> tail_ref" where
  "tail_after_link t pos =
     (case t of TailAt k \<Rightarrow> if pos \<le> k then TailAt (Suc k) else TailAt k | _ \<Rightarrow> t)"

text \<open>Linking a node in front of \<^verbatim>\<open>head\<close>, where the code ends with
  \<^verbatim>\<open>if self.tail is None: self.tail = node\<close>.\<close>

definition tail_after_push_front :: "tail_ref \<Rightarrow> tail_ref" where
  "tail_after_push_front t =
     (case t of TailNone \<Rightarrow> TailAt 0 | TailAt k \<Rightarrow> TailAt (Suc k) | TailDetached \<Rightarrow> TailDetached)"

text \<open>\<^verbatim>\<open>add_song\<close> links the new node behind \<^verbatim>\<open>tail\<close>: the nodes that followed \<^verbatim>\<open>tail\<close> in the
  chain are no longer reached.\<close>

definition dll_add_song :: "DoublyLinkedList \<Rightarrow> Song \<Rightarrow> error + DoublyLinkedList" where
  "dll_add_song d song =
     (if dll_chain d = [] then
        Inr \<lparr>dll_chain = [song], dll_tail = TailAt 0, dll_size = dll_size d + 1\<rparr>
      else
        (case dll_tail d of
           TailNone \<Rightarrow> Inl AttributeError
         | TailAt k \<Rightarrow>
             Inr \<lparr>dll_chain = take (Suc k) (dll_chain d) @ [song], dll_tail = TailAt (Suc k),
                  dll_size = dll_size d + 1\<rparr>
         | TailDetached \<Rightarrow> Inr (d\<lparr>dll_size := dll_size d + 1\<rparr>)))"

definition dll_delete_song :: "DoublyLinkedList \<Rightarrow> int \<Rightarrow> error + DoublyLinkedList" where
  "dll_delete_song d index =
     (if index < 0 \<or> index \<ge> dll_size d then Inl IndexError
      else if nat index \<ge> length (dll_chain d) then Inl AttributeError
      else
        Inr \<lparr>dll_chain = take (nat index) (dll_chain d) @ drop (Suc (nat index)) (dll_chain d),
             dll_tail = tail_after_unlink (dll_tail d) (nat index) (length (dll_chain d)),
             dll_size = dll_size d - 1\<rparr>)"

text \<open>
  \<^verbatim>\<open>move_song\<close> unlinks the node at \<^verbatim>\<open>from_index\<close> and links it in again at \<^verbatim>\<open>to_index\<close>: in
  front of \<^verbatim>\<open>head\<close> for 0, behind the node at \<^verbatim>\<open>to_index - 1\<close> otherwise. The second case does
  not assign \<^verbatim>\<open>tail\<close>, so a node moved to the last position is not the tail. When \<^verbatim>\<open>tail\<close>
  was the moved node (and not the last one), it still is that node afterwards.
\<close>

definition dll_move_song :: "DoublyLinkedList \<Rightarrow> int \<Rightarrow> int \<Rightarrow> error + DoublyLinkedList" where
  "dll_move_song d from_index to_index =
     (if from_index < 0 \<or> from_index \<ge> dll_size d \<or> to_index < 0 \<or> to_index \<ge> dll_size d
      then Inl IndexError
      else if from_index = to_index then Inr d
      else if nat from_index \<ge> length (dll_chain d) then Inl AttributeError
      else
        (let i = nat from_index;
             j = nat to_index;
             n = length (dll_chain d);
             current = dll_chain d ! i;
             rest = take i (dll_chain d) @ drop (Suc i) (dll_chain d);
             tail_is_current = (dll_tail d = TailAt i \<and> Suc i \<noteq> n);
             t = tail_after_unlink (dll_tail d) i n
         in if to_index = 0 then
              Inr (d\<lparr>dll_chain := current # rest,
                     dll_tail := (if tail_is_current then TailAt 0 else tail_after_push_front t)\<rparr>)
            else if j - 1 \<ge> length rest then Inl AttributeError
            else
              Inr (d\<lparr>dll_chain := take j rest @ [current] @ drop j rest,
                     dll_tail := (if tail_is_current then TailAt j else tail_after_link t j)\<rparr>)))"

text \<open>\<^verbatim>\<open>reverse_playlist\<close> sets \<^verbatim>\<open>tail\<close> to the old \<^verbatim>\<open>head\<close>, which is the last node afterwards.\<close>

definition dll_reverse_playlist :: "DoublyLinkedList \<Rightarrow> DoublyLinkedList" where
  "dll_reverse_playlist d =
     d\<lparr>dll_chain := rev (dll_chain d),
       dll_tail := (if dll_chain d = [] then TailNone else TailAt (length (dll_chain d) - 1))\<rparr>"

subsection \<open>ActionLogger (playlist/action_logger.py)\<close>

text \<open>
  The undo closures that \<^verbatim>\<open>Playlist\<close> logs, as data: each constructor carries the variables
  its closure captured. \<open>UndoAdd index\<close> is \<^verbatim>\<open>undo_add\<close>, \<open>UndoDelete song song_id index\<close> is
  \<^verbatim>\<open>undo_delete\<close>, \<open>UndoMove from_index to_index\<close> is \<^verbatim>\<open>undo_move\<close> and \<open>UndoReverse\<close> is
  \<^verbatim>\<open>undo_reverse\<close>. \<^verbatim>\<open>Playlist\<close> passes no keyword parameters to \<^verbatim>\<open>log_action\<close>.
\<close>

datatype undo = UndoAdd int | UndoDelete Song "string option" int | UndoMove int int | UndoReverse

record Action =
  action_type :: string
  undo_func :: undo

text \<open>\<^verbatim>\<open>deque(maxlen=max_history)\<close>: an append to a full deque drops the oldest element.\<close>

record ActionLogger =
  action_history :: "Action list"
  max_history :: nat

definition ActionLogger_init :: "nat \<Rightarrow> ActionLogger" where
  "ActionLogger_init m = \<lparr>action_history = [], max_history = m\<rparr>"

definition deque_append :: "nat \<Rightarrow> 'a list \<Rightarrow> 'a \<Rightarrow> 'a list" where
  "deque_append maxlen xs x = (let ys = xs @ [x] in if length ys > maxlen then tl ys else ys)"

definition log_action :: "ActionLogger \<Rightarrow> string \<Rightarrow> undo \<Rightarrow> ActionLogger" where
  "log_action al kind u =
     al\<lparr>action_history :=
          deque_append (max_history al) (action_history al) \<lparr>action_type = kind, undo_func = u\<rparr>\<rparr>"

definition get_action_history :: "ActionLogger \<Rightarrow> string list" where
  "get_action_history al = map action_type (action_history al)"

subsection \<open>Playlist (playlist/playlist.py)\<close>

record Playlist =
  playlist :: DoublyLinkedList
  lookup_map :: SongLookupMap
  artist_blocklist :: ArtistBlocklist
  action_logger :: ActionLogger
  shuffler_max_attempts :: int

text \<open>\<^verbatim>\<open>Playlist(enable_dedupe=True, dedupe_policy='first', max_undo_history=50)\<close>; the
  shuffler is built with its default of 1000 attempts.\<close>

definition Playlist_init :: "bool \<Rightarrow> string \<Rightarrow> nat \<Rightarrow> Playlist" where
  "Playlist_init dedupe policy max_undo_history =
     \<lparr>playlist = DoublyLinkedList_init, lookup_map = SongLookupMap_init dedupe policy,
      artist_blocklist = \<lparr>blocked_artists = {}\<rparr>,
      action_logger = ActionLogger_init max_undo_history,
      shuffler_max_attempts = 1000\<rparr>"

definition Playlist_default :: Playlist where
  "Playlist_default = Playlist_init True ''first'' 50"

definition get_all_songs :: "Playlist \<Rightarrow> Song list" where
  "get_all_songs p = dll_chain (playlist p)"

text \<open>\<^verbatim>\<open>add_song\<close> returns \<^verbatim>\<open>None\<close> on success, \<^verbatim>\<open>"BLOCKED_ARTIST"\<close> or the id that the
  lookup map reports for a duplicate.\<close>

definition add_song ::
  "Playlist \<Rightarrow> string \<Rightarrow> string \<Rightarrow> int \<Rightarrow> string option \<Rightarrow> string option
     \<Rightarrow> error + (string option \<times> Playlist)" where
  "add_song p title artist duration genre sid =
     (if is_blocked (artist_blocklist p) artist then Inr (Some ''BLOCKED_ARTIST'', p)
      else
        (let song = Song_init title artist duration sid genre in
         (case lookup_add_song (lookup_map p) song of
            (Some duplicate_result, lm) \<Rightarrow> Inr (Some duplicate_result, p\<lparr>lookup_map := lm\<rparr>)
          | (None, lm) \<Rightarrow>
              (let index = dll_size (playlist p) in
               (case dll_add_song (playlist p) song of
                  Inl e \<Rightarrow> Inl e
                | Inr d \<Rightarrow>
                    Inr (None,
                         p\<lparr>lookup_map := lm, playlist := d,
                           action_logger :=
                             log_action (action_logger p) ''add'' (UndoAdd index)\<rparr>))))))"

definition add_existing_song :: "Playlist \<Rightarrow> Song \<Rightarrow> error + (string option \<times> Playlist)" where
  "add_existing_song p song =
     (if is_blocked (artist_blocklist p) (song_artist song) then Inr (Some ''BLOCKED_ARTIST'', p)
      else
        (case lookup_add_song (lookup_map p) song of
           (Some duplicate_result, lm) \<Rightarrow> Inr (Some duplicate_result, p\<lparr>lookup_map := lm\<rparr>)
         | (None, lm) \<Rightarrow>
             (case dll_add_song (playlist p) song of
                Inl e \<Rightarrow> Inl e
              | Inr d \<Rightarrow> Inr (None, p\<lparr>lookup_map := lm, playlist := d\<rparr>))))"

text \<open>\<^verbatim>\<open>delete_song\<close> checks the index against \<^verbatim>\<open>size\<close>, walks to the node and reads its
  song before it changes anything.\<close>

definition delete_song :: "Playlist \<Rightarrow> int \<Rightarrow> error + (bool \<times> Playlist)" where
  "delete_song p index =
     (if index < 0 \<or> index \<ge> dll_size (playlist p) then Inl IndexError
      else if nat index \<ge> length (dll_chain (playlist p)) then Inl AttributeError
      else
        (let song = dll_chain (playlist p) ! nat index;
             sid = song_id song;
             lm = (case sid of
                     Some i \<Rightarrow> snd (lookup_remove_song (lookup_map p) i)
                   | None \<Rightarrow> lookup_map p)
         in (case dll_delete_song (playlist p) index of
               Inl e \<Rightarrow> Inl e
             | Inr d \<Rightarrow>
                 Inr (True,
                      p\<lparr>lookup_map := lm, playlist := d,
                        action_logger :=
                          log_action (action_logger p) ''delete'' (UndoDelete song sid index)\<rparr>))))"

definition move_song :: "Playlist \<Rightarrow> int \<Rightarrow> int \<Rightarrow> error + Playlist" where
  "move_song p from_index to_index =
     (case dll_move_song (playlist p) from_index to_index of
        Inl e \<Rightarrow> Inl e
      | Inr d \<Rightarrow>
          Inr (p\<lparr>playlist := d,
                 action_logger :=
                   log_action (action_logger p) ''move'' (UndoMove from_index to_index)\<rparr>))"

definition reverse_playlist :: "Playlist \<Rightarrow> Playlist" where
  "reverse_playlist p =
     p\<lparr>playlist := dll_reverse_playlist (playlist p),
       action_logger := log_action (action_logger p) ''reverse'' UndoReverse\<rparr>"

text \<open>
  \<^verbatim>\<open>_insert_song_at_index\<close>: the song goes into the lookup map (the result of that call is
  ignored), then in front of \<^verbatim>\<open>head\<close> for index 0, behind \<^verbatim>\<open>tail\<close> with \<^verbatim>\<open>add_song\<close> for an index
  from \<^verbatim>\<open>size\<close> on, and in front of the node at \<^verbatim>\<open>index\<close> otherwise. The walk
  \<^verbatim>\<open>for _ in range(index)\<close> does nothing for a negative index, which is position 0.
\<close>

definition insert_song_at_index :: "Playlist \<Rightarrow> Song \<Rightarrow> int \<Rightarrow> error + Playlist" where
  "insert_song_at_index p song index =
     (let p1 = p\<lparr>lookup_map := snd (lookup_add_song (lookup_map p) song)\<rparr>;
          d = playlist p1
      in if index = 0 then
           Inr (p1\<lparr>playlist :=
                     \<lparr>dll_chain = song # dll_chain d,
                      dll_tail = tail_after_push_front (dll_tail d),
                      dll_size = dll_size d + 1\<rparr>\<rparr>)
         else if index \<ge> dll_size d then
           (case dll_add_song d song of
              Inl e \<Rightarrow> Inl e
            | Inr d' \<Rightarrow> Inr (p1\<lparr>playlist := d'\<rparr>))
         else if nat index \<ge> length (dll_chain d) then Inl AttributeError
         else
           Inr (p1\<lparr>playlist :=
                     \<lparr>dll_chain = take (nat index) (dll_chain d) @ [song]
                                    @ drop (nat index) (dll_chain d),
                      dll_tail = tail_after_link (dll_tail d) (nat index),
                      dll_size = dll_size d + 1\<rparr>\<rparr>))"

text \<open>Running a logged undo closure.\<close>

definition run_undo :: "Playlist \<Rightarrow> undo \<Rightarrow> error + Playlist" where
  "run_undo p u =
     (case u of
        UndoAdd index \<Rightarrow>
          (case delete_song p index of Inl e \<Rightarrow> Inl e | Inr (ok, p') \<Rightarrow> Inr p')
      | UndoDelete song sid index \<Rightarrow>
          insert_song_at_index p
            (Song_init (song_title song) (song_artist song) (song_duration song) sid
               (song_genre song))
            index
      | UndoMove from_index to_index \<Rightarrow>
          (case dll_move_song (playlist p) to_index from_index of
             Inl e \<Rightarrow> Inl e
           | Inr d \<Rightarrow> Inr (p\<lparr>playlist := d\<rparr>))
      | UndoReverse \<Rightarrow> Inr (p\<lparr>playlist := dll_reverse_playlist (playlist p)\<rparr>))"

text \<open>The \<^verbatim>\<open>for _ in range(n)\<close> loop of \<^verbatim>\<open>ActionLogger.undo_last_n_actions\<close>: the action is
  popped from the right end of the history before its closure runs on the playlist.\<close>

fun undo_loop :: "nat \<Rightarrow> Playlist \<Rightarrow> string list \<Rightarrow> error + (string list \<times> Playlist)" where
  "undo_loop 0 p undone_actions = Inr (undone_actions, p)"
| "undo_loop (Suc k) p undone_actions =
     (if action_history (action_logger p) \<noteq> [] then
        (let action = last (action_history (action_logger p));
             p1 = p\<lparr>action_logger :=
                      (action_logger p)\<lparr>action_history :=
                                           butlast (action_history (action_logger p))\<rparr>\<rparr>
         in (case run_undo p1 (undo_func action) of
               Inl e \<Rightarrow> Inl e
             | Inr p2 \<Rightarrow> undo_loop k p2 (undone_actions @ [action_type action])))
      else undo_loop k p undone_actions)"

definition undo_last_n_actions :: "Playlist \<Rightarrow> int \<Rightarrow> error + (string list \<times> Playlist)" where
  "undo_last_n_actions p n =
     (if n \<le> 0 then Inr ([], p)
      else undo_loop (nat (min n (int (length (action_history (action_logger p)))))) p [])"




subsubsection \<open>Specification functions for the playlist\<close>

text \<open>\<^verbatim>\<open>delete_song(index)\<close> followed by \<^verbatim>\<open>undo_last_n_actions(1)\<close>.\<close>

definition delete_then_undo :: "Playlist \<Rightarrow> int \<Rightarrow> error + Playlist" where
  "delete_then_undo p index =
     (case delete_song p index of
        Inl e \<Rightarrow> Inl e
      | Inr (ok, p1) \<Rightarrow>
          (case undo_last_n_actions p1 1 of
             Inl e \<Rightarrow> Inl e
           | Inr (undone, p2) \<Rightarrow> Inr p2))"

text \<open>The five values that \<^verbatim>\<open>undo_delete\<close> passes to the \<^verbatim>\<open>Song\<close> constructor.\<close>

definition same_song_fields :: "Song \<Rightarrow> Song \<Rightarrow> bool" where
  "same_song_fields r s =
     (song_id r = song_id s \<and> song_title r = song_title s \<and> song_artist r = song_artist s \<and>
      song_duration r = song_duration s \<and> song_genre r = song_genre s)"

text \<open>The counter \<^verbatim>\<open>size\<close> is the number of nodes reached from \<^verbatim>\<open>head\<close>; and, stronger, the
  invariant of the list class: \<^verbatim>\<open>tail\<close> is the last of these nodes as well.\<close>

definition size_is_node_count :: "DoublyLinkedList \<Rightarrow> bool" where
  "size_is_node_count d = (dll_size d = int (length (dll_chain d)))"


text \<open>
  The key under which the duplicate cleaner registers a song. The dedupe index is in step
  with the playlist when every song of the playlist that has an id is registered under
  its key with that id. A list of songs is free of dedupe conflicts when no song that has
  an id is followed by a song with the same key.
\<close>

definition song_key :: "Song \<Rightarrow> string" where
  "song_key s = make_key (song_title s) (song_artist s)"

definition dedupe_index_in_step :: "Playlist \<Rightarrow> bool" where
  "dedupe_index_in_step p =
     (case duplicate_cleaner (lookup_map p) of
        Some dc \<Rightarrow>
          (\<forall>s \<in> set (get_all_songs p).
             song_id s \<noteq> None \<longrightarrow> key_to_song_id dc (song_key s) = Some (song_id s))
      | None \<Rightarrow> True)"




text \<open>
  A sequence of calls of the public methods, run from left to right; the first exception
  ends the run. The results of the calls are dropped.
\<close>

datatype call =
    AddSong string string int "string option" "string option"
  | DeleteSong int
  | MoveSong int int
  | ReversePlaylist
  | UndoLast int

definition run_call :: "Playlist \<Rightarrow> call \<Rightarrow> error + Playlist" where
  "run_call p c =
     (case c of
        AddSong title artist duration genre sid \<Rightarrow>
          (case add_song p title artist duration genre sid of
             Inl e \<Rightarrow> Inl e
           | Inr (result, p') \<Rightarrow> Inr p')
      | DeleteSong index \<Rightarrow>
          (case delete_song p index of Inl e \<Rightarrow> Inl e | Inr (ok, p') \<Rightarrow> Inr p')
      | MoveSong from_index to_index \<Rightarrow> move_song p from_index to_index
      | ReversePlaylist \<Rightarrow> Inr (reverse_playlist p)
      | UndoLast n \<Rightarrow>
          (case undo_last_n_actions p n of Inl e \<Rightarrow> Inl e | Inr (undone, p') \<Rightarrow> Inr p'))"

fun run_calls :: "call list \<Rightarrow> Playlist \<Rightarrow> error + Playlist" where
  "run_calls [] p = Inr p"
| "run_calls (c # cs) p = (case run_call p c of Inl e \<Rightarrow> Inl e | Inr p' \<Rightarrow> run_calls cs p')"

subsubsection \<open>Example playlists\<close>

text \<open>
  \<open>p_hi\<close> is the default playlist after \<^verbatim>\<open>add_song("Hi", "Al", 180, song_id="1")\<close>, and
  \<open>p_hi_played\<close> is that playlist after one \<^verbatim>\<open>increment_play_count()\<close> on the song (the
  playlist and the lookup map hold the same object). \<open>p_noid\<close> is the default playlist after
  \<^verbatim>\<open>add_song("Hi", "Al", 180)\<close>, a song without id. \<open>p_blocked\<close> is the default playlist
  with \<^verbatim>\<open>"Bad"\<close> on its blocklist.
\<close>

definition song_hi :: Song where
  "song_hi = Song_init ''Hi'' ''Al'' 180 (Some ''1'') None"

definition dc_hi :: DuplicateCleaner where
  "dc_hi = \<lparr>keep = ''first'', key_to_song_id = [''hi|al'' \<mapsto> Some ''1'']\<rparr>"

definition playlist_of ::
  "Song \<Rightarrow> (string \<rightharpoonup> Song) \<Rightarrow> DuplicateCleaner \<Rightarrow> Playlist" where
  "playlist_of s ids dc =
     \<lparr>playlist = \<lparr>dll_chain = [s], dll_tail = TailAt 0, dll_size = 1\<rparr>,
      lookup_map = \<lparr>id_map = ids, title_map = [song_title s \<mapsto> s], enable_dedupe = True,
                    duplicate_cleaner = Some dc\<rparr>,
      artist_blocklist = \<lparr>blocked_artists = {}\<rparr>,
      action_logger = \<lparr>action_history = [\<lparr>action_type = ''add'', undo_func = UndoAdd 0\<rparr>],
                       max_history = 50\<rparr>,
      shuffler_max_attempts = 1000\<rparr>"

definition p_hi :: Playlist where
  "p_hi = playlist_of song_hi [''1'' \<mapsto> song_hi] dc_hi"

definition p_hi_played :: Playlist where
  "p_hi_played =
     playlist_of (increment_play_count song_hi) [''1'' \<mapsto> increment_play_count song_hi] dc_hi"

definition dc_noid :: DuplicateCleaner where
  "dc_noid = \<lparr>keep = ''first'', key_to_song_id = [''hi|al'' \<mapsto> None]\<rparr>"

definition p_noid :: Playlist where
  "p_noid = playlist_of (Song_init ''Hi'' ''Al'' 180 None None) Map.empty dc_noid"

definition p_blocked :: Playlist where
  "p_blocked = Playlist_default\<lparr>artist_blocklist :=
      blocklist_add_artist (artist_blocklist Playlist_default) ''Bad''\<rparr>"

text \<open>
  Calls after which the playlist holds the song \<^verbatim>\<open>("Hi", "Al")\<close> with the id \<^verbatim>\<open>"1"\<close> while its
  key is not registered: the three undos put both deleted songs back, the second one past
  the duplicate check, and the last delete takes the key out of the index.
\<close>

definition calls_out_of_step :: "call list" where
  "calls_out_of_step =
     [AddSong ''Hi'' ''Al'' 180 None (Some ''1''), DeleteSong 0,
      AddSong ''Hi'' ''Al'' 180 None (Some ''2''), UndoLast 3, DeleteSong 1]"

text \<open>
  Calls after which \<^verbatim>\<open>size\<close> is 4 and three nodes are reached from \<^verbatim>\<open>head\<close>: the move to the
  last position leaves \<^verbatim>\<open>tail\<close> on the node of \<^verbatim>\<open>"B"\<close>, and the next \<^verbatim>\<open>add_song\<close> links its node
  behind that one.
\<close>

definition calls_stale_tail :: "call list" where
  "calls_stale_tail =
     [AddSong ''A'' ''X'' 100 None None, AddSong ''B'' ''X'' 100 None None, MoveSong 0 1,
      AddSong ''C'' ''X'' 100 None None, AddSong ''D'' ''X'' 100 None None]"








subsection \<open>ConstrainedShuffler (playlist/constrained_shuffle.py)\<close>

text \<open>
  The random generator is the sequence of the raw values it will draw: \<open>randbelow n\<close>
  takes the next value, reduced below \<open>n\<close>, and leaves the rest of the sequence.
  \<^verbatim>\<open>random.shuffle\<close> is the loop of the standard library,
  \<^verbatim>\<open>for i in reversed(range(1, len(x))): j = randbelow(i + 1); x[i], x[j] = x[j], x[i]\<close>.
\<close>

type_synonym rng = "nat \<Rightarrow> nat"

definition randbelow :: "nat \<Rightarrow> rng \<Rightarrow> nat \<times> rng" where
  "randbelow n g = (g 0 mod n, \<lambda>i. g (Suc i))"

fun shuffle_loop :: "nat \<Rightarrow> 'a list \<Rightarrow> rng \<Rightarrow> 'a list \<times> rng" where
  "shuffle_loop 0 x g = (x, g)"
| "shuffle_loop (Suc i) x g =
     (case randbelow (Suc i + 1) g of
        (j, g') \<Rightarrow> shuffle_loop i (x[Suc i := x ! j, j := x ! Suc i]) g')"

definition random_shuffle :: "'a list \<Rightarrow> rng \<Rightarrow> 'a list \<times> rng" where
  "random_shuffle x g = shuffle_loop (length x - 1) x g"

fun has_consecutive_artists :: "Song list \<Rightarrow> bool" where
  "has_consecutive_artists (a # b # songs) =
     (if lower (song_artist a) = lower (song_artist b) then True
      else has_consecutive_artists (b # songs))"
| "has_consecutive_artists songs = False"

text \<open>The dictionary \<^verbatim>\<open>artist_counts\<close> in insertion order; \<open>counts_step\<close> is the body of
  the counting loop.\<close>

definition counts_step :: "Song \<Rightarrow> (string \<times> int) list \<Rightarrow> (string \<times> int) list" where
  "counts_step song d =
     (let artist_key = lower (song_artist song) in
      AList.update artist_key
        ((case map_of d artist_key of Some c \<Rightarrow> c | None \<Rightarrow> 0) + 1) d)"

definition artist_counts :: "Song list \<Rightarrow> (string \<times> int) list" where
  "artist_counts songs = fold counts_step songs []"

definition is_arrangement_possible :: "Song list \<Rightarrow> bool" where
  "is_arrangement_possible songs =
     (if length songs \<le> 1 then True
      else Max (set (map snd (artist_counts songs))) \<le> (int (length songs) + 1) div 2)"

text \<open>The \<^verbatim>\<open>for _ in range(self._max_attempts)\<close> loop, with the fallback to the original
  order after it.\<close>

fun shuffle_attempts :: "nat \<Rightarrow> Song list \<Rightarrow> rng \<Rightarrow> Song list \<times> rng" where
  "shuffle_attempts 0 songs g = (songs, g)"
| "shuffle_attempts (Suc k) songs g =
     (case random_shuffle songs g of
        (shuffled, g') \<Rightarrow>
          if \<not> has_consecutive_artists shuffled then (shuffled, g')
          else shuffle_attempts k songs g')"

definition shuffle_with_constraints :: "int \<Rightarrow> Song list \<Rightarrow> rng \<Rightarrow> Song list \<times> rng" where
  "shuffle_with_constraints max_attempts songs g =
     (if length songs \<le> 1 then (songs, g)
      else if \<not> is_arrangement_possible songs then random_shuffle songs g
      else shuffle_attempts (nat max_attempts) songs g)"

subsubsection \<open>Specification functions for the shuffle\<close>

text \<open>The number of songs of an artist, compared in lower case, and the statement that
  each of the first \<open>k\<close> shuffles drawn from \<open>g\<close> puts two songs of one artist side by side.\<close>

definition artist_count :: "Song list \<Rightarrow> string \<Rightarrow> nat" where
  "artist_count songs a = length (filter (\<lambda>s. lower (song_artist s) = a) songs)"

fun all_attempts_fail :: "nat \<Rightarrow> Song list \<Rightarrow> rng \<Rightarrow> bool" where
  "all_attempts_fail 0 songs g = True"
| "all_attempts_fail (Suc k) songs g =
     (case random_shuffle songs g of
        (shuffled, g') \<Rightarrow> has_consecutive_artists shuffled \<and> all_attempts_fail k songs g')"

text \<open>
  Example songs: three by one artist, written with U+00C9 and with U+00E9, and two by that
  artist with one by another. The example generator draws 0, 1, 0, 1 and then 0 for ever: each of
  its first two shuffles of three songs swaps the last with the first and leaves the
  middle one.
\<close>

definition song_by :: "string \<Rightarrow> string \<Rightarrow> Song" where
  "song_by title artist = Song_init title artist 100 None None"

definition rng_of :: "nat list \<Rightarrow> rng" where
  "rng_of draws i = (if i < length draws then draws ! i else 0)"

definition rng_01 :: rng where
  "rng_01 = rng_of [0, 1, 0, 1]"

definition songs_aaa :: "Song list" where
  "songs_aaa = [song_by ''x'' [CHR 0xC9], song_by ''y'' [CHR 0xE9], song_by ''z'' [CHR 0xE9]]"

definition songs_aab :: "Song list" where
  "songs_aab = [song_by ''x'' [CHR 0xC9], song_by ''y'' [CHR 0xE9], song_by ''z'' ''B'']"

subsection \<open>SmartRecommender (recommend/recommender.py)\<close>

text \<open>
  A metadata dictionary holds the keys the recommender reads; a key that is absent is
  \<open>None\<close>. Durations, BPM values and scores are the rational numbers that the Python
  numbers denote, so the score is the exact weighted sum, and the rounding of
  \<^verbatim>\<open>round(score, 2)\<close> and the reason text of a recommendation are not modelled.
\<close>

record Metadata =
  md_genre :: "string option"
  md_subgenre :: "string option"
  md_mood :: "string option"
  md_artist :: "string option"
  md_duration :: "rat option"
  md_bpm :: "rat option"

record Criteria =
  crit_genre :: string
  crit_subgenre :: "string option"
  crit_mood :: "string option"

record Recommendation =
  rec_song_id :: string
  rec_score :: rat

text \<open>
  The three collaborators are the functions the recommender calls on them:
  \<^verbatim>\<open>playlist_explorer.search(criteria)\<close>, whose resulting set is given as the list in which
  Python enumerates it, \<^verbatim>\<open>skipped_tracker.is_recently_skipped(song_id)\<close> and
  \<^verbatim>\<open>playlist_songs_getter()\<close>.
\<close>

record SmartRecommender =
  playlist_explorer :: "Criteria \<Rightarrow> string list"
  skipped_tracker :: "string \<Rightarrow> bool"
  playlist_songs_getter :: "Song list"
  window_size :: nat
  seed_count :: int
  top_n :: int
  duration_threshold :: rat
  bpm_threshold :: rat
  max_candidates_per_seed :: int
  play_window :: "(string \<times> rat) list"
  played_set :: "string set"
  song_metadata :: "string \<rightharpoonup> Metadata"
  total_listen_time :: "string \<rightharpoonup> int"

definition SmartRecommender_init ::
  "(Criteria \<Rightarrow> string list) \<Rightarrow> (string \<Rightarrow> bool) \<Rightarrow> Song list \<Rightarrow> SmartRecommender" where
  "SmartRecommender_init explorer tracker getter =
     \<lparr>playlist_explorer = explorer, skipped_tracker = tracker, playlist_songs_getter = getter,
      window_size = 50, seed_count = 5, top_n = 10, duration_threshold = 120,
      bpm_threshold = 10, max_candidates_per_seed = 200,
      play_window = [], played_set = {}, song_metadata = Map.empty,
      total_listen_time = Map.empty\<rparr>"

text \<open>Python's \<^verbatim>\<open>x or fallback\<close> on an optional integer, the truth value of an optional
  string, and the slice \<^verbatim>\<open>xs[:k]\<close>.\<close>

definition py_or :: "int option \<Rightarrow> int \<Rightarrow> int" where
  "py_or x fallback = (case x of Some v \<Rightarrow> if v \<noteq> 0 then v else fallback | None \<Rightarrow> fallback)"

definition truthy :: "string option \<Rightarrow> string option" where
  "truthy x = (case x of Some v \<Rightarrow> if v \<noteq> [] then Some v else None | None \<Rightarrow> None)"

definition py_prefix :: "int \<Rightarrow> 'a list \<Rightarrow> 'a list" where
  "py_prefix k xs = (if 0 \<le> k then take (nat k) xs else take (nat (int (length xs) + k)) xs)"

definition md_nonempty :: "Metadata \<Rightarrow> bool" where
  "md_nonempty m =
     (md_genre m \<noteq> None \<or> md_subgenre m \<noteq> None \<or> md_mood m \<noteq> None \<or> md_artist m \<noteq> None \<or>
      md_duration m \<noteq> None \<or> md_bpm m \<noteq> None)"

definition record_play ::
  "SmartRecommender \<Rightarrow> string \<Rightarrow> rat \<Rightarrow> int \<Rightarrow> Metadata option \<Rightarrow> SmartRecommender" where
  "record_play r sid played_at play_duration metadata =
     r\<lparr>play_window := deque_append (window_size r) (play_window r) (sid, played_at),
       played_set := insert sid (played_set r),
       total_listen_time :=
         (total_listen_time r)
           (sid \<mapsto> (case total_listen_time r sid of Some t \<Rightarrow> t | None \<Rightarrow> 0) + play_duration),
       song_metadata :=
         (case metadata of
            Some m \<Rightarrow> if md_nonempty m then (song_metadata r)(sid \<mapsto> m) else song_metadata r
          | None \<Rightarrow> song_metadata r)\<rparr>"

definition get_similar_songs :: "SmartRecommender \<Rightarrow> string \<Rightarrow> string list" where
  "get_similar_songs r seed_song_id =
     (case song_metadata r seed_song_id of
        None \<Rightarrow> []
      | Some seed_meta \<Rightarrow>
          (case truthy (md_genre seed_meta) of
             Some genre \<Rightarrow>
               filter (\<lambda>c. c \<noteq> seed_song_id)
                 (playlist_explorer r
                    \<lparr>crit_genre = genre, crit_subgenre = truthy (md_subgenre seed_meta),
                     crit_mood = truthy (md_mood seed_meta)\<rparr>)
           | None \<Rightarrow> []))"

text \<open>\<^verbatim>\<open>meta.get(key, '').lower()\<close> and \<^verbatim>\<open>meta.get(key, 0)\<close>.\<close>

definition get_lower :: "string option \<Rightarrow> string" where
  "get_lower x = (case x of Some v \<Rightarrow> lower v | None \<Rightarrow> [])"

definition get_number :: "rat option \<Rightarrow> rat" where
  "get_number x = (case x of Some v \<Rightarrow> v | None \<Rightarrow> 0)"

definition field_match :: "string option \<Rightarrow> string option \<Rightarrow> bool" where
  "field_match a b = (get_lower a \<noteq> [] \<and> get_lower b \<noteq> [] \<and> get_lower a = get_lower b)"

text \<open>The duration and the BPM term: nothing unless both values are positive and differ
  by at most the threshold; the division raises \<^verbatim>\<open>ZeroDivisionError\<close> for threshold 0.\<close>

definition proximity_term :: "rat \<Rightarrow> rat \<Rightarrow> rat \<Rightarrow> rat \<Rightarrow> error + rat" where
  "proximity_term weight threshold seed_value candidate_value =
     (if seed_value > 0 \<and> candidate_value > 0 then
        (let diff = \<bar>candidate_value - seed_value\<bar> in
         if diff \<le> threshold then
           (if threshold = 0 then Inl ZeroDivisionError
            else Inr (weight * max 0 (1 - diff / threshold)))
         else Inr 0)
      else Inr 0)"

definition calculate_similarity_score :: "SmartRecommender \<Rightarrow> string \<Rightarrow> string \<Rightarrow> error + rat" where
  "calculate_similarity_score r seed_id candidate_id =
     (case (song_metadata r seed_id, song_metadata r candidate_id) of
        (Some seed_meta, Some candidate_meta) \<Rightarrow>
          (let s1 = (if field_match (md_genre seed_meta) (md_genre candidate_meta) then 1 else 0);
               s2 = s1 + (if field_match (md_subgenre seed_meta) (md_subgenre candidate_meta)
                          then 4 / 5 else 0);
               s3 = s2 + (if field_match (md_mood seed_meta) (md_mood candidate_meta)
                          then 3 / 5 else 0)
           in (case proximity_term (1 / 2) (duration_threshold r)
                     (get_number (md_duration seed_meta)) (get_number (md_duration candidate_meta)) of
                 Inl e \<Rightarrow> Inl e
               | Inr d \<Rightarrow>
                   (case proximity_term (2 / 5) (bpm_threshold r)
                           (get_number (md_bpm seed_meta)) (get_number (md_bpm candidate_meta)) of
                      Inl e \<Rightarrow> Inl e
                    | Inr b \<Rightarrow> Inr (s3 + d + b))))
      | _ \<Rightarrow> Inr 0)"

text \<open>The seed loop over \<^verbatim>\<open>reversed(self.play_window)\<close>.\<close>

fun collect_seeds :: "int \<Rightarrow> (string \<times> rat) list \<Rightarrow> string list \<Rightarrow> string list" where
  "collect_seeds k [] seed_songs = seed_songs"
| "collect_seeds k ((sid, timestamp) # rest) seed_songs =
     (if int (length seed_songs) \<ge> k then seed_songs
      else collect_seeds k rest (if sid \<in> set seed_songs then seed_songs else seed_songs @ [sid]))"

text \<open>\<^verbatim>\<open>candidate_scores[candidate_id] += score\<close> on a \<^verbatim>\<open>defaultdict(float)\<close>, in insertion
  order.\<close>

definition add_score :: "(string \<times> rat) list \<Rightarrow> string \<Rightarrow> rat \<Rightarrow> (string \<times> rat) list" where
  "add_score d k v = AList.update k ((case map_of d k of Some c \<Rightarrow> c | None \<Rightarrow> 0) + v) d"

definition active_ids :: "Song list \<Rightarrow> string list" where
  "active_ids playlist_songs =
     concat (map (\<lambda>song. case song_id song of
                            Some sid \<Rightarrow> if sid \<noteq> [] then [sid] else []
                          | None \<Rightarrow> [])
               playlist_songs)"

text \<open>The inner loop over the candidates of one seed.\<close>

fun score_candidates ::
  "SmartRecommender \<Rightarrow> bool \<Rightarrow> string list \<Rightarrow> string \<Rightarrow> string list \<Rightarrow> (string \<times> rat) list
     \<Rightarrow> error + (string \<times> rat) list" where
  "score_candidates r exclude active seed_id [] scores = Inr scores"
| "score_candidates r exclude active seed_id (candidate_id # rest) scores =
     (if candidate_id \<in> played_set r then score_candidates r exclude active seed_id rest scores
      else if skipped_tracker r candidate_id
        then score_candidates r exclude active seed_id rest scores
      else if exclude \<and> candidate_id \<in> set active
        then score_candidates r exclude active seed_id rest scores
      else
        (case calculate_similarity_score r seed_id candidate_id of
           Inl e \<Rightarrow> Inl e
         | Inr score \<Rightarrow>
             score_candidates r exclude active seed_id rest
               (if score > 0 then add_score scores candidate_id score else scores)))"

text \<open>The outer loop over the seeds.\<close>

fun score_seeds ::
  "SmartRecommender \<Rightarrow> bool \<Rightarrow> string list \<Rightarrow> string list \<Rightarrow> (string \<times> rat) list
     \<Rightarrow> error + (string \<times> rat) list" where
  "score_seeds r exclude active [] scores = Inr scores"
| "score_seeds r exclude active (seed_id # seeds) scores =
     (case score_candidates r exclude active seed_id
             (py_prefix (max_candidates_per_seed r) (get_similar_songs r seed_id)) scores of
        Inl e \<Rightarrow> Inl e
      | Inr scores' \<Rightarrow> score_seeds r exclude active seeds scores')"

text \<open>\<^verbatim>\<open>sorted(..., key=lambda x: x[1], reverse=True)\<close> is stable, as \<open>sort_key\<close> is.\<close>

definition recommend ::
  "SmartRecommender \<Rightarrow> int option \<Rightarrow> int option \<Rightarrow> bool \<Rightarrow> error + Recommendation list" where
  "recommend r seed_count_arg top_n_arg exclude_active_playlist =
     (let seed_count' = py_or seed_count_arg (seed_count r);
          top_n' = py_or top_n_arg (top_n r);
          seed_songs = collect_seeds seed_count' (rev (play_window r)) []
      in if seed_songs = [] then Inr []
         else
           (let active_playlist_songs =
                  (if exclude_active_playlist then active_ids (playlist_songs_getter r) else [])
            in (case score_seeds r exclude_active_playlist active_playlist_songs seed_songs [] of
                  Inl e \<Rightarrow> Inl e
                | Inr candidate_scores \<Rightarrow>
                    Inr (map (\<lambda>(sid, score). \<lparr>rec_song_id = sid, rec_score = score\<rparr>)
                           (py_prefix top_n'
                              (sort_key (\<lambda>(sid, score). - score) candidate_scores))))))"

subsubsection \<open>Specification functions and an example for the recommender\<close>

text \<open>The three filters of the candidate loop as one predicate.\<close>

definition allowed_candidate :: "SmartRecommender \<Rightarrow> bool \<Rightarrow> string list \<Rightarrow> string \<Rightarrow> bool" where
  "allowed_candidate r exclude active c =
     (c \<notin> played_set r \<and> \<not> skipped_tracker r c \<and> \<not> (exclude \<and> c \<in> set active))"

text \<open>
  A recommender with the default configuration after one play of \<^verbatim>\<open>"s1"\<close>. The explorer
  returns five songs for the genre of the seed: the song with the empty id \<^verbatim>\<open>""\<close>, \<^verbatim>\<open>"s2"\<close>,
  the recently skipped \<^verbatim>\<open>"s3"\<close>, \<^verbatim>\<open>"s4"\<close> and the seed itself. The playlist snapshot holds
  the songs with the ids \<^verbatim>\<open>""\<close> and \<^verbatim>\<open>"s4"\<close>. The metadata table was filled directly, as
  the demos of the repository do.
\<close>

definition md_rock :: Metadata where
  "md_rock = \<lparr>md_genre = Some ''Rock'', md_subgenre = None, md_mood = None, md_artist = None,
              md_duration = None, md_bpm = None\<rparr>"

definition rec_demo :: SmartRecommender where
  "rec_demo =
     (record_play
        (SmartRecommender_init
           (\<lambda>c. if crit_genre c = ''Rock'' then ['''', ''s2'', ''s3'', ''s4'', ''s1''] else [])
           (\<lambda>sid. sid = ''s3'')
           [Song_init ''T0'' ''A0'' 100 (Some '''') None, Song_init ''T4'' ''A4'' 100 (Some ''s4'') None])
        ''s1'' 1 200 (Some md_rock))
     \<lparr>song_metadata := [''s1'' \<mapsto> md_rock, '''' \<mapsto> md_rock, ''s2'' \<mapsto> md_rock,
                         ''s3'' \<mapsto> md_rock, ''s4'' \<mapsto> md_rock]\<rparr>"

section \<open>Theorems\<close>

subsection \<open>FavoriteQueue\<close>

lemma sort_Min_remove1:
  fixes h :: "('a::linorder) list"
  assumes "h \<noteq> []"
  shows "sort h = Min (set h) # sort (remove1 (Min (set h)) h)"
proof (rule properties_for_sort)
  have m: "Min (set h) \<in> set h" using assms by simp
  then show "mset (Min (set h) # sort (remove1 (Min (set h)) h)) = mset h"
    by simp
  have "\<forall>x \<in> set (remove1 (Min (set h)) h). Min (set h) \<le> x"
    by (meson List.finite_set Min_le notin_set_remove1)
  then show "sorted (Min (set h) # sort (remove1 (Min (set h)) h))"
    by simp
qed

lemma get_top_n_body_valid:
  "entry_valid q e \<Longrightarrow>
   get_top_n_body q e result temp = (result @ [summary_of q e], temp @ [e])"
  by (auto simp: entry_valid_def get_top_n_body_def summary_of_def Let_def
           split: prod.splits option.splits)

lemma get_top_n_body_stale:
  "\<not> entry_valid q e \<Longrightarrow> get_top_n_body q e result temp = (result, temp)"
  by (auto simp: entry_valid_def get_top_n_body_def Let_def split: prod.splits option.splits)

text \<open>The loop pops the entries in ascending order, so it computes \<open>take_valid\<close> on the
  sorted heap; the heap it leaves holds the entries \<open>take_valid\<close> did not reach.\<close>

lemma get_top_n_loop_char:
  "take_valid q (nat (n - int (length result))) (sort h) = (t, r) \<Longrightarrow>
   (case get_top_n_loop q n h result temp of (h', result', temp') \<Rightarrow>
      sort h' = r \<and> result' = result @ map (summary_of q) t \<and> temp' = temp @ t)"
proof (induction q n h result temp arbitrary: t r rule: get_top_n_loop.induct)
  case (1 q n h result temp)
  show ?case
  proof (cases "int (length result) < n \<and> h \<noteq> []")
    case False
    then show ?thesis using "1.prems"
      by (cases "sort h") (auto simp: get_top_n_loop.simps[of q n h])
  next
    case True
    define m where "m = Min (set h)"
    define h1 where "h1 = remove1 m h"
    have pop: "heappop h = (m, h1)" by (simp add: heappop_def m_def h1_def)
    have srt: "sort h = m # sort h1"
      using True sort_Min_remove1[of h] by (simp add: m_def h1_def)
    have kpos: "nat (n - int (length result)) \<noteq> 0" using True by simp
    show ?thesis
    proof (cases "entry_valid q m")
      case v: True
      obtain t1 r1 where
        tv: "take_valid q (nat (n - int (length result)) - 1) (sort h1) = (t1, r1)"
        by (cases "take_valid q (nat (n - int (length result)) - 1) (sort h1)")
      have eq: "nat (n - int (length (result @ [summary_of q m])))
                  = nat (n - int (length result)) - 1"
        by simp
      have tr: "t = m # t1" "r = r1" using "1.prems" srt kpos v tv by auto
      have body: "get_top_n_body q m result temp = (result @ [summary_of q m], temp @ [m])"
        using v by (rule get_top_n_body_valid)
      from "1.IH"[OF True pop[symmetric] body[symmetric], of t1 r1] tv eq
      have "case get_top_n_loop q n h1 (result @ [summary_of q m]) (temp @ [m]) of
              (h', result', temp') \<Rightarrow> sort h' = r1 \<and>
                 result' = (result @ [summary_of q m]) @ map (summary_of q) t1 \<and>
                 temp' = (temp @ [m]) @ t1" by simp
      then show ?thesis using True pop body tr
        by (simp add: get_top_n_loop.simps[of q n h] split: prod.splits)
    next
      case nv: False
      have tv: "take_valid q (nat (n - int (length result))) (sort h1) = (t, r)"
        using "1.prems" srt kpos nv by auto
      have body: "get_top_n_body q m result temp = (result, temp)"
        using nv by (rule get_top_n_body_stale)
      from "1.IH"[OF True pop[symmetric] body[symmetric], of t r] tv
      have "case get_top_n_loop q n h1 result temp of
              (h', result', temp') \<Rightarrow> sort h' = r \<and>
                 result' = result @ map (summary_of q) t \<and> temp' = temp @ t" by simp
      then show ?thesis using True pop body
        by (simp add: get_top_n_loop.simps[of q n h] split: prod.splits)
    qed
  qed
qed

lemma take_valid_props:
  "take_valid q k xs = (t, r) \<Longrightarrow>
   length t \<le> k \<and> (\<forall>e \<in> set t. entry_valid q e) \<and> set (t @ r) \<subseteq> set xs"
proof (induction xs arbitrary: k t r)
  case Nil
  then show ?case by simp
next
  case (Cons x xs)
  show ?case
  proof (cases "k = 0")
    case True
    then show ?thesis using Cons.prems by auto
  next
    case k: False
    show ?thesis
    proof (cases "entry_valid q x")
      case True
      obtain t1 r1 where tv: "take_valid q (k - 1) xs = (t1, r1)"
        by (cases "take_valid q (k - 1) xs")
      from Cons.IH[OF tv] Cons.prems k True tv show ?thesis by auto
    next
      case False
      with Cons.IH[of k t r] Cons.prems k show ?thesis by auto
    qed
  qed
qed

lemma take_valid_sorted:
  "sorted xs \<Longrightarrow> take_valid q k xs = (t, r) \<Longrightarrow> sorted (t @ r)"
proof (induction xs arbitrary: k t r)
  case Nil
  then show ?case by simp
next
  case (Cons x xs)
  show ?case
  proof (cases "k = 0")
    case True
    then show ?thesis using Cons.prems by auto
  next
    case k: False
    show ?thesis
    proof (cases "entry_valid q x")
      case True
      obtain t1 r1 where tv: "take_valid q (k - 1) xs = (t1, r1)"
        by (cases "take_valid q (k - 1) xs")
      have "sorted (t1 @ r1)" using Cons.IH[OF _ tv] Cons.prems(1) by simp
      moreover have "set (t1 @ r1) \<subseteq> set xs" using take_valid_props[OF tv] by simp
      moreover have "t = x # t1" "r = r1" using Cons.prems(2) k True tv by auto
      ultimately show ?thesis using Cons.prems(1) by auto
    next
      case False
      with Cons.IH[of k t r] Cons.prems k show ?thesis by auto
    qed
  qed
qed

lemma take_valid_idem:
  "take_valid q k xs = (t, r) \<Longrightarrow> take_valid q k (t @ r) = (t, r)"
proof (induction xs arbitrary: k t r)
  case Nil
  then show ?case by simp
next
  case (Cons x xs)
  show ?case
  proof (cases "k = 0")
    case True
    then show ?thesis using Cons.prems by auto
  next
    case k: False
    show ?thesis
    proof (cases "entry_valid q x")
      case True
      obtain t1 r1 where tv: "take_valid q (k - 1) xs = (t1, r1)"
        by (cases "take_valid q (k - 1) xs")
      have "t = x # t1" "r = r1" using Cons.prems k True tv by auto
      then show ?thesis using Cons.IH[OF tv] k True by simp
    next
      case False
      with Cons.IH[of k t r] Cons.prems k show ?thesis by auto
    qed
  qed
qed

lemma entry_valid_cong:
  "song_listen_times q' = song_listen_times q \<Longrightarrow> favorites q' = favorites q \<Longrightarrow>
   entry_valid q' e = entry_valid q e"
  by (simp add: entry_valid_def)

lemma take_valid_cong:
  "song_listen_times q' = song_listen_times q \<Longrightarrow> favorites q' = favorites q \<Longrightarrow>
   take_valid q' k xs = take_valid q k xs"
  by (induction xs arbitrary: k) (simp_all add: entry_valid_cong[of q' q])

lemma summary_of_cong:
  "favorites q' = favorites q \<Longrightarrow> summary_of q' e = summary_of q e"
  by (simp add: summary_of_def)

lemma fold_heappush_mset:
  "mset (fold (\<lambda>entry h'. heappush h' entry) es h) = mset es + mset h"
  by (induction es arbitrary: h) (simp_all add: heappush_def)

lemma get_top_n_char:
  assumes "take_valid q (nat n) (sort (heap q)) = (t, r)"
  shows "fst (get_top_n q n) = map (summary_of q) t"
    and "get_top_n_entries q n = t"
    and "sort (heap (snd (get_top_n q n))) = t @ r"
    and "song_listen_times (snd (get_top_n q n)) = song_listen_times q"
    and "favorites (snd (get_top_n q n)) = favorites q"
proof -
  obtain h' res tmp where l: "get_top_n_loop q n (heap q) [] [] = (h', res, tmp)"
    by (cases "get_top_n_loop q n (heap q) [] []")
  from get_top_n_loop_char[of q n "[]" "heap q" t r "[]"] assms l
  have c: "sort h' = r" "res = map (summary_of q) t" "tmp = t" by auto
  show "fst (get_top_n q n) = map (summary_of q) t" using l c by (simp add: get_top_n_def)
  show "get_top_n_entries q n = t" using l c by (simp add: get_top_n_entries_def)
  show "song_listen_times (snd (get_top_n q n)) = song_listen_times q"
    using l by (simp add: get_top_n_def)
  show "favorites (snd (get_top_n q n)) = favorites q"
    using l by (simp add: get_top_n_def)
  have "mset h' = mset r" using c(1) by (metis mset_sort)
  then have m: "mset (t @ r) = mset (fold (\<lambda>entry h'. heappush h' entry) t h')"
    by (simp add: fold_heappush_mset)
  have s: "sorted (t @ r)" using take_valid_sorted[OF _ assms] by simp
  have "sort (fold (\<lambda>entry h'. heappush h' entry) t h') = t @ r"
    using m s by (rule properties_for_sort)
  then show "sort (heap (snd (get_top_n q n))) = t @ r"
    using l c by (simp add: get_top_n_def)
qed

lemmas fq_eval = record_listen_def add_to_favorites_def remove_from_favorites_def
  FavoriteQueue_init_def get_top_n_def get_top_n_entries_def heappush_def heappop_def
  get_top_n_body_def Let_def

text \<open>
  Claim C1. For every queue and every \<open>n\<close>, every song returned by \<^verbatim>\<open>get_top_n(n)\<close> is a key
  of the favorites map (and carries its authoritative listen time), the returned list is
  ordered by non-increasing total listen time, and it has at most \<open>n\<close> entries (none when
  \<open>n\<close> is not positive). The heap is arbitrary, so it may hold stale entries and entries of
  songs that are no longer favorites. The read leaves the favorites map as it was.
\<close>

theorem get_top_n_favorites_sorted:
  "(\<forall>s \<in> set (fst (get_top_n q n)).
      favorites q (ss_song_id s) \<noteq> None \<and>
      song_listen_times q (ss_song_id s) = Some (ss_total_listen_time s)) \<and>
   sorted_wrt (\<lambda>a b. ss_total_listen_time a \<ge> ss_total_listen_time b) (fst (get_top_n q n)) \<and>
   length (fst (get_top_n q n)) \<le> nat n \<and>
   favorites (snd (get_top_n q n)) = favorites q"
proof -
  obtain t r where tv: "take_valid q (nat n) (sort (heap q)) = (t, r)"
    by (cases "take_valid q (nat n) (sort (heap q))")
  note ch = get_top_n_char[OF tv]
  note pr = take_valid_props[OF tv]
  have st: "sorted t" using take_valid_sorted[OF _ tv] by (simp add: sorted_append)
  have a: "\<forall>s \<in> set (fst (get_top_n q n)).
      favorites q (ss_song_id s) \<noteq> None \<and>
      song_listen_times q (ss_song_id s) = Some (ss_total_listen_time s)"
    using pr unfolding ch(1)
    by (auto simp: entry_valid_def summary_of_def split: prod.splits option.splits)
  have "sorted_wrt (\<lambda>a b. fst a \<le> fst b) t"
    using st by (rule sorted_wrt_mono_rel[rotated]) (auto simp: less_eq_prod_def)
  then have b: "sorted_wrt (\<lambda>a b. ss_total_listen_time a \<ge> ss_total_listen_time b) (fst (get_top_n q n))"
    unfolding ch(1) sorted_wrt_map
    by (rule sorted_wrt_mono_rel[rotated]) (auto simp: summary_of_def split: prod.splits option.splits)
  show ?thesis using a b pr ch by simp
qed

theorem get_top_n_favorites_sorted_witness:
  "fst (get_top_n fq_stale 5) =
     [\<lparr>ss_song_id = ''a'', ss_title = ''T1'', ss_artist = ''A1'', ss_total_listen_time = 30\<rparr>,
      \<lparr>ss_song_id = ''b'', ss_title = ''T2'', ss_artist = ''A2'', ss_total_listen_time = 20\<rparr>] \<and>
   favorites fq_stale ''a'' \<noteq> None \<and> favorites fq_stale ''b'' \<noteq> None \<and>
   favorites fq_stale ''c'' = None \<and> (- 50, 3, ''c'') \<in> set (heap fq_stale)"
  using get_top_n_favorites_sorted[of fq_stale 5]
  by (simp add: fq_stale_def fq_eval)


text \<open>
  Claim C7. Calling \<^verbatim>\<open>get_top_n(n)\<close> twice in a row, the second time on the queue the first
  call left, returns the same list in the same order.
\<close>

theorem get_top_n_twice:
  "fst (get_top_n (snd (get_top_n q n)) n) = fst (get_top_n q n)"
proof -
  obtain t r where tv: "take_valid q (nat n) (sort (heap q)) = (t, r)"
    by (cases "take_valid q (nat n) (sort (heap q))")
  note ch = get_top_n_char[OF tv]
  let ?q1 = "snd (get_top_n q n)"
  have "take_valid ?q1 (nat n) (sort (heap ?q1)) = (t, r)"
    using take_valid_idem[OF tv] ch(3) take_valid_cong[OF ch(4) ch(5)] by simp
  from get_top_n_char(1)[OF this] have "fst (get_top_n ?q1 n) = map (summary_of ?q1) t" .
  also have "\<dots> = map (summary_of q) t" using summary_of_cong[OF ch(5)] by simp
  finally show ?thesis using ch(1) by simp
qed

text \<open>
  Claim C8, as the code has it. The heap is a min-heap on
  \<^verbatim>\<open>(-total_listen_time, timestamp, song_id)\<close>, so of two returned songs with equal total
  listen time the one whose entry carries the smaller timestamp (the one recorded earlier)
  comes first; when the timestamps are equal too, the smaller song id comes first.
\<close>

theorem get_top_n_tie_order:
  assumes "res = fst (get_top_n q n)" and "es = get_top_n_entries q n"
    and "i < j" and "j < length res"
    and "ss_total_listen_time (res ! i) = ss_total_listen_time (res ! j)"
  shows "ss_song_id (res ! i) = entry_song_id (es ! i) \<and>
         ss_song_id (res ! j) = entry_song_id (es ! j) \<and>
         (entry_timestamp (es ! i) < entry_timestamp (es ! j) \<or>
          entry_timestamp (es ! i) = entry_timestamp (es ! j) \<and>
          ss_song_id (res ! i) \<le> ss_song_id (res ! j))"
proof -
  obtain t r where tv: "take_valid q (nat n) (sort (heap q)) = (t, r)"
    by (cases "take_valid q (nat n) (sort (heap q))")
  note ch = get_top_n_char[OF tv]
  have res: "res = map (summary_of q) t" and es: "es = t" using assms ch by simp_all
  have "length res = length t" unfolding res by simp
  then have len: "i < length t" "j < length t" using assms(3,4) by simp_all
  have st: "sorted t" using take_valid_sorted[OF _ tv] by (simp add: sorted_append)
  have le: "t ! i \<le> t ! j" using st len assms(3) by (simp add: sorted_nth_mono)
  have id: "\<And>k. k < length t \<Longrightarrow> ss_song_id (res ! k) = entry_song_id (t ! k) \<and>
               ss_total_listen_time (res ! k) = - fst (t ! k)"
    unfolding res by (auto simp: summary_of_def entry_song_id_def split: prod.splits option.splits)
  have "fst (t ! i) = fst (t ! j)" using id[OF len(1)] id[OF len(2)] assms(5) by simp
  then have "snd (t ! i) \<le> snd (t ! j)" using le by (auto simp: less_eq_prod_def)
  then have "fst (snd (t ! i)) < fst (snd (t ! j)) \<or>
             fst (snd (t ! i)) = fst (snd (t ! j)) \<and> snd (snd (t ! i)) \<le> snd (snd (t ! j))"
    by (auto simp: less_eq_prod_def)
  then show ?thesis using id[OF len(1)] id[OF len(2)] es
    by (simp add: entry_timestamp_def entry_song_id_def)
qed

theorem get_top_n_tie_order_witness:
  "(0::nat) < 1 \<and> 1 < length (fst (get_top_n fq_tie 2)) \<and>
   ss_total_listen_time (fst (get_top_n fq_tie 2) ! 0) = ss_total_listen_time (fst (get_top_n fq_tie 2) ! 1) \<and>
   entry_timestamp (get_top_n_entries fq_tie 2 ! 0) < entry_timestamp (get_top_n_entries fq_tie 2 ! 1) \<and>
   ss_song_id (fst (get_top_n fq_tie 2) ! 0) = ''b''"
  using get_top_n_tie_order[of "fst (get_top_n fq_tie 2)" fq_tie 2 "get_top_n_entries fq_tie 2" 0 1]
  by (simp add: fq_tie_def fq_eval entry_timestamp_def entry_song_id_def)


text \<open>The claim as stated (the later-recorded entry ranked earlier) fails: \<^verbatim>\<open>"a"\<close> is
  recorded after \<^verbatim>\<open>"b"\<close> with the same total and is ranked after it.\<close>

theorem get_top_n_tie_counterexample:
  "get_top_n_entries fq_tie 2 = [(- 10, 1, ''b''), (- 10, 2, ''a'')] \<and>
   map ss_song_id (fst (get_top_n fq_tie 2)) = [''b'', ''a'']"
  by (simp add: fq_tie_def fq_eval)


text \<open>
  Claim C9. \<^verbatim>\<open>add_to_favorites\<close> of a song whose listen time is already tracked leaves
  \<^verbatim>\<open>song_listen_times\<close> unchanged, and so does \<^verbatim>\<open>remove_from_favorites\<close>; removing a song
  and adding it again restores its membership with the accumulated listen time preserved.
\<close>

theorem add_to_favorites_keeps_listen_time:
  assumes "song_listen_times q sid = Some v"
  shows "song_listen_times (add_to_favorites q sid title artist) = song_listen_times q \<and>
         song_listen_times (remove_from_favorites q sid) = song_listen_times q \<and>
         song_listen_times
           (add_to_favorites (remove_from_favorites q sid) sid title artist)
           = song_listen_times q \<and>
         favorites (add_to_favorites (remove_from_favorites q sid) sid title artist)
           sid = Some (title, artist)"
  using assms by (simp add: add_to_favorites_def remove_from_favorites_def Let_def)

theorem add_to_favorites_keeps_listen_time_witness:
  "song_listen_times fq_tie ''a'' = Some 10 \<and>
   song_listen_times (add_to_favorites (remove_from_favorites fq_tie ''a'') ''a'' ''T2'' ''A2'') ''a''
     = Some 10 \<and>
   favorites (add_to_favorites (remove_from_favorites fq_tie ''a'') ''a'' ''T2'' ''A2'') ''a''
     = Some (''T2'', ''A2'')"
  using add_to_favorites_keeps_listen_time[of fq_tie "''a''" 10 "''T2''" "''A2''"]
  by (simp add: fq_tie_def fq_eval)

subsection \<open>Strings\<close>

text \<open>Adding 32 to the code point of an upper-case letter sets the bit of value 32, which
  is how \<open>lower_char\<close> is evaluated on a character given by its bits.\<close>

lemma lower_char_bits:
  "lower_char (Char b0 b1 b2 b3 b4 b5 b6 b7) =
     (if upper_letter (Char b0 b1 b2 b3 b4 b5 b6 b7) then Char b0 b1 b2 b3 b4 True b6 b7
      else Char b0 b1 b2 b3 b4 b5 b6 b7)"
proof (cases "upper_letter (Char b0 b1 b2 b3 b4 b5 b6 b7)")
  case False
  then show ?thesis by (simp add: lower_char_def)
next
  case True
  then have b5: "\<not> b5"
    by (cases b0; cases b1; cases b2; cases b3; cases b4; cases b5; cases b6; cases b7;
        simp add: upper_letter_def Let_def of_char_def)
  have "of_char (Char b0 b1 b2 b3 b4 True b6 b7)
          = (of_char (Char b0 b1 b2 b3 b4 False b6 b7) :: nat) + 32"
    by (simp add: of_char_def)
  then have "char_of ((of_char (Char b0 b1 b2 b3 b4 False b6 b7) :: nat) + 32)
               = Char b0 b1 b2 b3 b4 True b6 b7"
    by (metis char_of_char)
  then show ?thesis using True b5 by (simp add: lower_char_def)
qed

lemmas str_eval = normalize_def normalize_artist_def lower_def lower_char_bits upper_letter_def
  strip_def is_space_def make_key_def Let_def

text \<open>\<^verbatim>\<open>str.lower\<close> and the white space beyond ASCII: U+00C9 is lowered to U+00E9, the
  multiplication sign U+00D7 stays, and U+00A0 and U+0085 are stripped.\<close>

lemma lower_latin1: "lower [CHR 0xC9, CHR 0xD7, CHR ''Z''] = [CHR 0xE9, CHR 0xD7, CHR ''z'']"
  by (simp add: str_eval)

lemma normalize_latin1: "normalize [CHR 0xA0, CHR 0xC9, CHR 0x85] = [CHR 0xE9]"
  by (simp add: str_eval)

subsection \<open>Playlist\<close>

lemmas playlist_eval = Playlist_default_def Playlist_init_def SongLookupMap_init_def
  DuplicateCleaner_init_def ActionLogger_init_def DoublyLinkedList_init_def add_song_def
  add_existing_song_def is_blocked_def blocklist_add_artist_def lookup_add_song_def
  lookup_store_def cleanup_on_add_def register_def Song_init_def dll_add_song_def
  log_action_def deque_append_def playlist_of_def

lemmas calls_eval = run_call_def delete_song_def dll_delete_song_def dll_move_song_def
  move_song_def lookup_remove_song_def deregister_def undo_last_n_actions_def run_undo_def
  insert_song_at_index_def tail_after_unlink_def tail_after_link_def
  tail_after_push_front_def get_all_songs_def

lemma key_hi: "make_key ''Hi'' ''Al'' = ''hi|al''"
  by (simp add: str_eval)

lemma key_hi_spaced: "make_key '' HI '' ''al'' = ''hi|al''"
  by (simp add: str_eval)


text \<open>The example playlists are what \<^verbatim>\<open>add_song\<close> returns on the default playlist.\<close>

lemma p_hi_reached:
  "add_song Playlist_default ''Hi'' ''Al'' 180 None (Some ''1'') = Inr (None, p_hi)"
  by (simp add: p_hi_def song_hi_def dc_hi_def playlist_eval key_hi Let_def)

lemma p_noid_reached:
  "add_song Playlist_default ''Hi'' ''Al'' 180 None None = Inr (None, p_noid)"
  by (simp add: p_noid_def dc_noid_def playlist_eval key_hi Let_def)

text \<open>The default playlist has its dedupe index in step, and \<^verbatim>\<open>add_song\<close> under policy
  \<^verbatim>\<open>'first'\<close> keeps it in step: it is in step on every playlist built by \<^verbatim>\<open>add_song\<close> alone.\<close>

lemma default_in_step: "dedupe_index_in_step Playlist_default"
  by (simp add: dedupe_index_in_step_def playlist_eval get_all_songs_def)

lemma dll_add_song_chain:
  "dll_add_song d song = Inr d' \<Longrightarrow> set (dll_chain d') \<subseteq> insert song (set (dll_chain d))"
  by (auto simp: dll_add_song_def split: if_splits tail_ref.splits dest: in_set_takeD)

lemma add_song_keeps_in_step:
  assumes "enable_dedupe (lookup_map p)" and "duplicate_cleaner (lookup_map p) = Some dc"
    and "keep dc = ''first''" and "dedupe_index_in_step p"
    and "add_song p title artist duration genre sid = Inr (result, p')"
  shows "dedupe_index_in_step p'"
proof (cases "result = None")
  case False
  then have "p' = p"
    using assms(1,2,3,5)
    by (auto simp: add_song_def lookup_add_song_def cleanup_on_add_def Let_def
             split: if_splits option.splits sum.splits)
  then show ?thesis using assms(4) by simp
next
  case True
  let ?song = "Song_init title artist duration sid genre"
  let ?k = "make_key title artist"
  have k: "song_key ?song = ?k" by (simp add: song_key_def Song_init_def)
  have free: "key_to_song_id dc ?k = None \<or> key_to_song_id dc ?k = Some None"
    using assms(1,2,3,5) True
    by (cases "key_to_song_id dc ?k")
       (auto simp: add_song_def lookup_add_song_def cleanup_on_add_def Song_init_def Let_def
             split: if_splits option.splits sum.splits)
  obtain d where d: "dll_add_song (playlist p) ?song = Inr d" and
    pl: "playlist p' = d" and
    dc': "duplicate_cleaner (lookup_map p')
            = Some (dc\<lparr>key_to_song_id := (key_to_song_id dc)(?k \<mapsto> sid)\<rparr>)"
    using assms(1,2,3,5) True free
    by (auto simp: add_song_def lookup_add_song_def cleanup_on_add_def lookup_store_def
          register_def Song_init_def Let_def split: if_splits option.splits sum.splits)
  have old: "\<forall>s \<in> set (dll_chain (playlist p)).
               song_id s \<noteq> None \<longrightarrow> key_to_song_id dc (song_key s) = Some (song_id s)"
    using assms(2,4) by (simp add: dedupe_index_in_step_def get_all_songs_def)
  have "\<forall>s \<in> set (dll_chain d).
          song_id s \<noteq> None \<longrightarrow>
          ((key_to_song_id dc)(?k \<mapsto> sid)) (song_key s) = Some (song_id s)"
  proof (intro ballI impI)
    fix s assume s: "s \<in> set (dll_chain d)" and i: "song_id s \<noteq> None"
    from dll_add_song_chain[OF d] s have "s = ?song \<or> s \<in> set (dll_chain (playlist p))" by auto
    then show "((key_to_song_id dc)(?k \<mapsto> sid)) (song_key s) = Some (song_id s)"
    proof
      assume "s = ?song"
      then show ?thesis using k by (simp add: Song_init_def)
    next
      assume m: "s \<in> set (dll_chain (playlist p))"
      then have r: "key_to_song_id dc (song_key s) = Some (song_id s)" using old i by blast
      then have "song_key s \<noteq> ?k" using free i by auto
      then show ?thesis using r by simp
    qed
  qed
  then show ?thesis using pl dc' by (simp add: dedupe_index_in_step_def get_all_songs_def)
qed

lemma in_step_key:
  assumes "dedupe_index_in_step p" and "duplicate_cleaner (lookup_map p) = Some dc"
    and "s \<in> set (get_all_songs p)" and "song_key s = make_key title artist"
    and "song_id s = Some existing"
  shows "key_to_song_id dc (make_key title artist) = Some (Some existing)"
proof -
  from assms(1,2) have "\<forall>s \<in> set (get_all_songs p).
      song_id s \<noteq> None \<longrightarrow> key_to_song_id dc (song_key s) = Some (song_id s)"
    by (simp add: dedupe_index_in_step_def)
  with assms(3) have "song_id s \<noteq> None \<longrightarrow> key_to_song_id dc (song_key s) = Some (song_id s)"
    by blast
  with assms(4,5) show ?thesis by simp
qed

text \<open>
  Claim C3, as the code has it. \<^verbatim>\<open>add_song\<close> with a blocked artist returns
  \<^verbatim>\<open>"BLOCKED_ARTIST"\<close>. With deduplication enabled under policy \<^verbatim>\<open>'first'\<close>, on a playlist
  whose dedupe index is in step with its songs, and with a song in the playlist that has
  the same normalized (title, artist) and has an id, it returns that id. In both cases
  the call returns without an exception and the returned playlist is the playlist it was
  called on: sequence, size, lookup map and undo log are unchanged.
\<close>

theorem add_song_rejections:
  "(is_blocked (artist_blocklist p) artist \<longrightarrow>
      add_song p title artist duration genre sid = Inr (Some ''BLOCKED_ARTIST'', p)) \<and>
   (\<not> is_blocked (artist_blocklist p) artist \<and> enable_dedupe (lookup_map p) \<and>
    duplicate_cleaner (lookup_map p) = Some dc \<and> keep dc = ''first'' \<and>
    dedupe_index_in_step p \<and>
    s \<in> set (get_all_songs p) \<and> song_key s = make_key title artist \<and>
    song_id s = Some existing \<longrightarrow>
      add_song p title artist duration genre sid = Inr (Some existing, p))"
proof (intro conjI impI)
  assume "is_blocked (artist_blocklist p) artist"
  then show "add_song p title artist duration genre sid = Inr (Some ''BLOCKED_ARTIST'', p)"
    by (simp add: add_song_def)
next
  assume a: "\<not> is_blocked (artist_blocklist p) artist \<and> enable_dedupe (lookup_map p) \<and>
    duplicate_cleaner (lookup_map p) = Some dc \<and> keep dc = ''first'' \<and>
    dedupe_index_in_step p \<and>
    s \<in> set (get_all_songs p) \<and> song_key s = make_key title artist \<and>
    song_id s = Some existing"
  then have "key_to_song_id dc (make_key title artist) = Some (Some existing)"
    using in_step_key[of p dc s title artist existing] by simp
  then show "add_song p title artist duration genre sid = Inr (Some existing, p)"
    using a by (simp add: add_song_def lookup_add_song_def cleanup_on_add_def Song_init_def)
qed

theorem add_song_rejections_witness:
  "is_blocked (artist_blocklist p_blocked) '' BAD '' \<and>
   add_song p_blocked ''Song'' '' BAD '' 200 None (Some ''7'')
     = Inr (Some ''BLOCKED_ARTIST'', p_blocked) \<and>
   \<not> is_blocked (artist_blocklist p_hi) ''al'' \<and>
   enable_dedupe (lookup_map p_hi) \<and>
   duplicate_cleaner (lookup_map p_hi) = Some dc_hi \<and>
   keep dc_hi = ''first'' \<and> dedupe_index_in_step p_hi \<and>
   song_hi \<in> set (get_all_songs p_hi) \<and> song_key song_hi = make_key '' HI '' ''al'' \<and>
   song_id song_hi = Some ''1'' \<and>
   add_song p_hi '' HI '' ''al'' 200 None (Some ''2'') = Inr (Some ''1'', p_hi)"
proof -
  have b: "is_blocked (artist_blocklist p_blocked) '' BAD ''"
    by (simp add: p_blocked_def playlist_eval str_eval)
  have nb: "\<not> is_blocked (artist_blocklist p_hi) ''al''"
    by (simp add: p_hi_def playlist_of_def is_blocked_def)
  have en: "enable_dedupe (lookup_map p_hi)"
    by (simp add: p_hi_def playlist_of_def)
  have dc: "duplicate_cleaner (lookup_map p_hi) = Some dc_hi"
    by (simp add: p_hi_def playlist_of_def)
  have k: "keep dc_hi = ''first''" by (simp add: dc_hi_def)
  have m: "song_hi \<in> set (get_all_songs p_hi)"
    by (simp add: p_hi_def playlist_of_def get_all_songs_def)
  have key: "song_key song_hi = make_key '' HI '' ''al''"
    by (simp add: song_key_def song_hi_def Song_init_def key_hi key_hi_spaced)
  have i: "song_id song_hi = Some ''1''" by (simp add: song_hi_def Song_init_def)
  have st: "dedupe_index_in_step p_hi"
    using add_song_keeps_in_step[OF _ _ _ default_in_step p_hi_reached]
    by (simp add: playlist_eval)
  show ?thesis
    using b nb en dc k m key i st
      add_song_rejections[where p = p_blocked and artist = "'' BAD ''"
        and title = "''Song''" and duration = 200 and genre = None and sid = "Some ''7''"]
      add_song_rejections[where p = p_hi and artist = "''al''" and title = "'' HI ''"
        and duration = 200 and genre = None and sid = "Some ''2''" and existing = "''1''"
        and dc = dc_hi and s = song_hi]
    by blast
qed

text \<open>
  The claim as stated fails in two ways. When the duplicate in the playlist has no id, the
  stored id \<^verbatim>\<open>None\<close> that \<^verbatim>\<open>cleanup_on_add\<close> returns is what the callers read as "no
  duplicate", and the song is appended. And after the calls of \<open>calls_out_of_step\<close> the
  playlist holds \<^verbatim>\<open>("Hi", "Al")\<close> with the id \<^verbatim>\<open>"1"\<close> under no registered key, and the same
  title and artist are appended again.
\<close>

theorem add_song_duplicate_counterexample:
  "enable_dedupe (lookup_map p_noid) \<and>
   duplicate_cleaner (lookup_map p_noid) = Some dc_noid \<and>
   keep dc_noid = ''first'' \<and>
   map song_key (get_all_songs p_noid) = [make_key ''Hi'' ''Al''] \<and>
   map_sum id (map song_key \<circ> get_all_songs \<circ> snd)
     (add_song p_noid ''Hi'' ''Al'' 200 None None) = Inr [''hi|al'', ''hi|al''] \<and>
   map_sum id (map song_key \<circ> get_all_songs) (run_calls calls_out_of_step Playlist_default)
     = Inr [make_key ''Hi'' ''Al''] \<and>
   map_sum id (map song_id \<circ> get_all_songs) (run_calls calls_out_of_step Playlist_default)
     = Inr [Some ''1''] \<and>
   map_sum id (map song_id \<circ> get_all_songs)
     (run_calls (calls_out_of_step @ [AddSong ''Hi'' ''Al'' 200 None (Some ''3'')])
        Playlist_default) = Inr [Some ''1'', Some ''3'']"
proof -
  have noid: "enable_dedupe (lookup_map p_noid) \<and>
      duplicate_cleaner (lookup_map p_noid) = Some dc_noid \<and>
      keep dc_noid = ''first'' \<and>
      map song_key (get_all_songs p_noid) = [make_key ''Hi'' ''Al''] \<and>
      map_sum id (map song_key \<circ> get_all_songs \<circ> snd)
        (add_song p_noid ''Hi'' ''Al'' 200 None None) = Inr [''hi|al'', ''hi|al'']"
    by (simp add: p_noid_def dc_noid_def playlist_eval get_all_songs_def song_key_def key_hi
        Let_def)
  have keys: "map_sum id (map song_key \<circ> get_all_songs)
      (run_calls calls_out_of_step Playlist_default) = Inr [make_key ''Hi'' ''Al'']"
    by (simp add: calls_out_of_step_def playlist_eval calls_eval song_key_def key_hi Let_def
        numeral_3_eq_3)
  have ids: "map_sum id (map song_id \<circ> get_all_songs)
      (run_calls calls_out_of_step Playlist_default) = Inr [Some ''1'']"
    by (simp add: calls_out_of_step_def playlist_eval calls_eval key_hi Let_def numeral_3_eq_3)
  have again: "map_sum id (map song_id \<circ> get_all_songs)
      (run_calls (calls_out_of_step @ [AddSong ''Hi'' ''Al'' 200 None (Some ''3'')])
         Playlist_default) = Inr [Some ''1'', Some ''3'']"
    by (simp add: calls_out_of_step_def playlist_eval calls_eval key_hi Let_def numeral_3_eq_3)
  from noid keys ids again show ?thesis by blast
qed

text \<open>Deleting the node at a valid index and inserting a song at that index, as the undo
  of the delete does, replaces the song at the index: the branch for the last index finds
  \<^verbatim>\<open>tail\<close> on the node before the deleted one, where \<^verbatim>\<open>delete_song\<close> has put it.\<close>

lemma deque_append_last:
  "0 < m \<Longrightarrow> deque_append m xs x \<noteq> [] \<and> last (deque_append m xs x) = x"
  by (cases xs) (auto simp: deque_append_def Let_def)

lemma insert_after_delete:
  assumes "i < length xs"
    and "playlist q = \<lparr>dll_chain = take i xs @ drop (Suc i) xs,
                        dll_tail = tail_after_unlink t i (length xs),
                        dll_size = int (length xs) - 1\<rparr>"
  shows "\<exists>q2. insert_song_at_index q r (int i) = Inr q2 \<and>
              dll_chain (playlist q2) = xs[i := r] \<and>
              dll_size (playlist q2) = int (length xs)"
proof -
  have u: "xs[i := r] = take i xs @ r # drop (Suc i) xs"
    using assms(1) by (rule upd_conv_take_nth_drop)
  consider "i = 0" | "i \<noteq> 0" "Suc i = length xs" | "i \<noteq> 0" "Suc i < length xs"
    using assms(1) by linarith
  then show ?thesis
  proof cases
    case 1
    then show ?thesis using u assms(2) by (simp add: insert_song_at_index_def Let_def)
  next
    case 2
    then have "take i xs \<noteq> []" using assms(1) by auto
    moreover have "min (length xs) i = i" using assms(1) by simp
    ultimately show ?thesis using 2 u assms
      by (simp add: insert_song_at_index_def Let_def dll_add_song_def tail_after_unlink_def)
  next
    case 3
    then show ?thesis using u assms
      by (simp add: insert_song_at_index_def Let_def min_def)
  qed
qed

lemma delete_then_undo_eq:
  assumes "0 \<le> index" and "index < dll_size (playlist p)"
    and "size_is_node_count (playlist p)" and "0 < max_history (action_logger p)"
  shows "\<exists>p2. delete_then_undo p index = Inr p2 \<and>
              dll_size (playlist p2) = dll_size (playlist p) \<and>
              get_all_songs p2 =
                (get_all_songs p)[nat index :=
                   Song_init (song_title (get_all_songs p ! nat index))
                     (song_artist (get_all_songs p ! nat index))
                     (song_duration (get_all_songs p ! nat index))
                     (song_id (get_all_songs p ! nat index))
                     (song_genre (get_all_songs p ! nat index))]"
proof -
  define xs where "xs = dll_chain (playlist p)"
  define i where "i = nat index"
  define s where "s = xs ! i"
  define lm where "lm = (case song_id s of
                     Some k \<Rightarrow> snd (lookup_remove_song (lookup_map p) k)
                   | None \<Rightarrow> lookup_map p)"
  define d1 where "d1 = \<lparr>dll_chain = take i xs @ drop (Suc i) xs,
                         dll_tail = tail_after_unlink (dll_tail (playlist p)) i (length xs),
                         dll_size = int (length xs) - 1\<rparr>"
  define p1 where "p1 = p\<lparr>lookup_map := lm, playlist := d1,
                        action_logger :=
                          log_action (action_logger p) ''delete'' (UndoDelete s (song_id s) index)\<rparr>"
  have sz: "dll_size (playlist p) = int (length xs)"
    using assms(3) by (simp add: size_is_node_count_def xs_def)
  have il: "i < length xs" "index = int i"
    using assms(1,2) sz by (simp_all add: i_def)
  have d: "delete_song p index = Inr (True, p1)"
    using assms(1,2) il sz
    by (simp add: delete_song_def dll_delete_song_def Let_def p1_def lm_def s_def d1_def
        xs_def[symmetric])
  let ?h = "action_history (action_logger p1)"
  have h: "?h \<noteq> []"
    "last ?h = \<lparr>action_type = ''delete'', undo_func = UndoDelete s (song_id s) index\<rparr>"
    using deque_append_last[OF assms(4), of "action_history (action_logger p)"
        "\<lparr>action_type = ''delete'', undo_func = UndoDelete s (song_id s) index\<rparr>"]
    by (simp_all add: p1_def log_action_def)
  have n: "nat (min 1 (int (length ?h))) = Suc 0"
    using h(1) by (cases ?h) (simp_all add: min_def)
  define r where
    "r = Song_init (song_title s) (song_artist s) (song_duration s) (song_id s) (song_genre s)"
  define p1' where
    "p1' = p1\<lparr>action_logger := (action_logger p1)\<lparr>action_history := butlast ?h\<rparr>\<rparr>"
  have pl: "playlist p1' = \<lparr>dll_chain = take i xs @ drop (Suc i) xs,
                             dll_tail = tail_after_unlink (dll_tail (playlist p)) i (length xs),
                             dll_size = int (length xs) - 1\<rparr>"
    by (simp add: p1'_def p1_def d1_def)
  from insert_after_delete[OF il(1) pl, of r] obtain p2 where
    ins: "insert_song_at_index p1' r index = Inr p2" and
    p2: "dll_chain (playlist p2) = xs[i := r]" "dll_size (playlist p2) = int (length xs)"
    using il(2) by auto
  have "undo_last_n_actions p1 1 = Inr ([''delete''], p2)"
    using h n ins by (simp add: undo_last_n_actions_def Let_def run_undo_def r_def p1'_def)
  then show ?thesis
    using d p2 sz by (simp add: delete_then_undo_def get_all_songs_def r_def s_def i_def xs_def)
qed

text \<open>
  Claim C2, as the code has it. On a playlist whose list counts in \<^verbatim>\<open>size\<close> the nodes it
  holds and whose undo log keeps at least one action, \<^verbatim>\<open>delete_song(index)\<close> at a valid index
  followed by \<^verbatim>\<open>undo_last_n_actions(1)\<close> raises nothing and puts a song with the title,
  artist, duration, id and genre of the deleted song at the index it was deleted from;
  every other position holds the song it held before, and \<^verbatim>\<open>size\<close> is what it was. The
  sequence is the one before the delete whenever the deleted song had play count 0.
\<close>

theorem delete_then_undo_restores:
  assumes "0 \<le> index" and "index < dll_size (playlist p)"
    and "size_is_node_count (playlist p)" and "0 < max_history (action_logger p)"
  shows "case delete_then_undo p index of
           Inl e \<Rightarrow> False
         | Inr p2 \<Rightarrow>
             length (get_all_songs p2) = length (get_all_songs p) \<and>
             same_song_fields (get_all_songs p2 ! nat index) (get_all_songs p ! nat index) \<and>
             (\<forall>j < length (get_all_songs p). j \<noteq> nat index \<longrightarrow>
                get_all_songs p2 ! j = get_all_songs p ! j) \<and>
             (song_play_count (get_all_songs p ! nat index) = 0 \<longrightarrow>
                get_all_songs p2 = get_all_songs p) \<and>
             dll_size (playlist p2) = dll_size (playlist p)"
proof -
  let ?s = "get_all_songs p ! nat index"
  let ?r = "Song_init (song_title ?s) (song_artist ?s) (song_duration ?s) (song_id ?s)
              (song_genre ?s)"
  from delete_then_undo_eq[OF assms] obtain p2 where
    a: "delete_then_undo p index = Inr p2" and
    z: "dll_size (playlist p2) = dll_size (playlist p)" and
    b: "get_all_songs p2 = (get_all_songs p)[nat index := ?r]" by blast
  have il: "nat index < length (get_all_songs p)"
    using assms(1,2,3) by (simp add: size_is_node_count_def get_all_songs_def)
  have c: "song_play_count ?s = 0 \<Longrightarrow> ?r = ?s"
    by (simp add: Song_init_def)
  have e: "song_play_count ?s = 0 \<Longrightarrow> get_all_songs p2 = get_all_songs p"
    using b c by simp
  have f: "length (get_all_songs p2) = length (get_all_songs p)"
    "same_song_fields (get_all_songs p2 ! nat index) ?s"
    "\<forall>j < length (get_all_songs p). j \<noteq> nat index \<longrightarrow> get_all_songs p2 ! j = get_all_songs p ! j"
    using b il by (simp_all add: same_song_fields_def Song_init_def)
  show ?thesis using a e f z by simp
qed

theorem delete_then_undo_restores_witness:
  "(0::int) \<le> 0 \<and> 0 < dll_size (playlist p_hi) \<and> size_is_node_count (playlist p_hi) \<and>
   0 < max_history (action_logger p_hi) \<and>
   song_play_count (get_all_songs p_hi ! 0) = 0 \<and>
   (case delete_then_undo p_hi 0 of
      Inl e \<Rightarrow> False
    | Inr p2 \<Rightarrow> get_all_songs p2 = get_all_songs p_hi)"
  using delete_then_undo_restores[of 0 p_hi]
  by (auto simp: p_hi_def song_hi_def playlist_of_def size_is_node_count_def get_all_songs_def
           Song_init_def split: sum.splits)

text \<open>
  The claim as stated fails in two ways. For a song that has been played, the undo builds
  a new \<^verbatim>\<open>Song\<close>, whose play count starts at 0. And after the calls of \<open>calls_stale_tail\<close> the
  list holds three nodes under \<^verbatim>\<open>size\<close> 4: \<^verbatim>\<open>delete_song(2)\<close> succeeds there, and the undo walks
  two nodes on from \<^verbatim>\<open>head\<close> in a list of two and ends in an \<^verbatim>\<open>AttributeError\<close>.
\<close>

theorem delete_then_undo_counterexample:
  "get_all_songs p_hi_played = [increment_play_count song_hi] \<and>
   map_sum id get_all_songs (delete_then_undo p_hi_played 0) = Inr [song_hi] \<and>
   song_play_count (increment_play_count song_hi) = 1 \<and> song_play_count song_hi = 0 \<and>
   map_sum id (map song_title \<circ> get_all_songs) (run_calls calls_stale_tail Playlist_default)
     = Inr [''B'', ''C'', ''D''] \<and>
   map_sum id (dll_size \<circ> playlist) (run_calls calls_stale_tail Playlist_default) = Inr 4 \<and>
   map_sum id (map song_title \<circ> get_all_songs)
     (run_calls (calls_stale_tail @ [DeleteSong 2]) Playlist_default) = Inr [''B'', ''C''] \<and>
   run_calls (calls_stale_tail @ [DeleteSong 2, UndoLast 1]) Playlist_default
     = Inl AttributeError"
proof -
  have played: "get_all_songs p_hi_played = [increment_play_count song_hi] \<and>
      map_sum id get_all_songs (delete_then_undo p_hi_played 0) = Inr [song_hi] \<and>
      song_play_count (increment_play_count song_hi) = 1 \<and> song_play_count song_hi = 0"
    by (simp add: p_hi_played_def song_hi_def dc_hi_def playlist_eval calls_eval
        increment_play_count_def delete_then_undo_def key_hi Let_def)
  have ka: "make_key ''A'' ''X'' = ''a|x''" by (simp add: str_eval)
  have kb: "make_key ''B'' ''X'' = ''b|x''" by (simp add: str_eval)
  have kc: "make_key ''C'' ''X'' = ''c|x''" by (simp add: str_eval)
  have kd: "make_key ''D'' ''X'' = ''d|x''" by (simp add: str_eval)
  have titles: "map_sum id (map song_title \<circ> get_all_songs)
      (run_calls calls_stale_tail Playlist_default) = Inr [''B'', ''C'', ''D'']"
    by (simp add: calls_stale_tail_def playlist_eval calls_eval ka kb kc kd Let_def)
  have size: "map_sum id (dll_size \<circ> playlist) (run_calls calls_stale_tail Playlist_default)
      = Inr 4"
    by (simp add: calls_stale_tail_def playlist_eval calls_eval ka kb kc kd Let_def)
  have deleted: "map_sum id (map song_title \<circ> get_all_songs)
      (run_calls (calls_stale_tail @ [DeleteSong 2]) Playlist_default) = Inr [''B'', ''C'']"
    by (simp add: calls_stale_tail_def playlist_eval calls_eval ka kb kc kd Let_def)
  have undone: "run_calls (calls_stale_tail @ [DeleteSong 2, UndoLast 1]) Playlist_default
      = Inl AttributeError"
    by (simp add: calls_stale_tail_def playlist_eval calls_eval ka kb kc kd Let_def)
  from played titles size deleted undone show ?thesis by blast
qed











subsection \<open>ConstrainedShuffler\<close>

lemma shuffle_loop_mset:
  "i < length x \<Longrightarrow> mset (fst (shuffle_loop i x g)) = mset x"
proof (induction i arbitrary: x g)
  case 0
  then show ?case by simp
next
  case (Suc i)
  obtain j g' where r: "randbelow (Suc i + 1) g = (j, g')" by (cases "randbelow (Suc i + 1) g")
  then have "j < Suc (Suc i)" by (auto simp: randbelow_def)
  then have j: "j < length x" using Suc.prems by simp
  let ?y = "x[Suc i := x ! j, j := x ! Suc i]"
  have "mset ?y = mset x" using mset_swap[OF j Suc.prems] .
  moreover have "i < length ?y" using Suc.prems by simp
  ultimately show ?case using Suc.IH[of ?y g'] r by simp
qed

lemma random_shuffle_mset: "mset (fst (random_shuffle x g)) = mset x"
proof (cases x)
  case Nil
  then show ?thesis by (simp add: random_shuffle_def)
next
  case (Cons a as)
  then show ?thesis using shuffle_loop_mset[of "length x - 1" x g] by (simp add: random_shuffle_def)
qed

lemma shuffle_attempts_mset: "mset (fst (shuffle_attempts k songs g)) = mset songs"
proof (induction k arbitrary: g)
  case 0
  then show ?case by simp
next
  case (Suc k)
  obtain sh g' where r: "random_shuffle songs g = (sh, g')" by (cases "random_shuffle songs g")
  then have "mset sh = mset songs" using random_shuffle_mset[of songs g] by simp
  then show ?case using Suc.IH[of g'] r by simp
qed

lemma shuffle_attempts_fail:
  "all_attempts_fail k songs g \<Longrightarrow> fst (shuffle_attempts k songs g) = songs"
  by (induction k arbitrary: g) (auto split: prod.splits)

lemma fold_counts:
  "distinct (map fst d) \<Longrightarrow>
   distinct (map fst (fold counts_step songs d)) \<and>
   map_of (fold counts_step songs d) a =
     (case map_of d a of
        Some c \<Rightarrow> Some (c + int (artist_count songs a))
      | None \<Rightarrow> if artist_count songs a = 0 then None else Some (int (artist_count songs a)))"
proof (induction songs arbitrary: d)
  case Nil
  then show ?case by (simp add: artist_count_def split: option.splits)
next
  case (Cons s songs)
  have d': "distinct (map fst (counts_step s d))"
    using Cons.prems by (simp add: counts_step_def Let_def distinct_update)
  have m: "map_of (counts_step s d) =
     (map_of d)(lower (song_artist s) \<mapsto> (case map_of d (lower (song_artist s)) of Some c \<Rightarrow> c | None \<Rightarrow> 0) + 1)"
    by (simp add: counts_step_def Let_def update_conv')
  show ?case using Cons.IH[OF d'] m
    by (auto simp: artist_count_def split: option.splits)
qed

lemma artist_counts_map_of:
  "distinct (map fst (artist_counts songs)) \<and>
   map_of (artist_counts songs) a =
     (if artist_count songs a = 0 then None else Some (int (artist_count songs a)))"
  using fold_counts[of "[]" songs a]
  by (simp add: artist_counts_def)

lemma artist_counts_values:
  "set (map snd (artist_counts songs)) =
     {int (artist_count songs a) | a. artist_count songs a \<noteq> 0}"
proof -
  have "set (map snd (artist_counts songs)) = ran (map_of (artist_counts songs))"
    using artist_counts_map_of[of songs] by (simp add: ran_distinct)
  also have "\<dots> = {int (artist_count songs a) | a. artist_count songs a \<noteq> 0}"
    using artist_counts_map_of[of songs] by (auto simp: ran_def split: if_splits)
  finally show ?thesis .
qed

lemma is_arrangement_possible_iff:
  assumes "1 < length songs"
  shows "is_arrangement_possible songs \<longleftrightarrow>
         (\<forall>a. int (artist_count songs a) \<le> (int (length songs) + 1) div 2)"
proof -
  let ?V = "set (map snd (artist_counts songs))"
  have fin: "finite ?V" by simp
  obtain s where "s \<in> set songs" using assms by (cases songs) auto
  then have "artist_count songs (lower (song_artist s)) \<noteq> 0"
    by (auto simp: artist_count_def filter_empty_conv)
  then have ne: "?V \<noteq> {}" unfolding artist_counts_values by blast
  have "is_arrangement_possible songs \<longleftrightarrow> (\<forall>v \<in> ?V. v \<le> (int (length songs) + 1) div 2)"
    using assms fin ne by (simp add: is_arrangement_possible_def)
  also have "\<dots> \<longleftrightarrow> (\<forall>a. int (artist_count songs a) \<le> (int (length songs) + 1) div 2)"
  proof
    assume h: "\<forall>v \<in> ?V. v \<le> (int (length songs) + 1) div 2"
    show "\<forall>a. int (artist_count songs a) \<le> (int (length songs) + 1) div 2"
    proof
      fix a
      show "int (artist_count songs a) \<le> (int (length songs) + 1) div 2"
      proof (cases "artist_count songs a = 0")
        case True
        then show ?thesis by simp
      next
        case False
        then have "int (artist_count songs a) \<in> ?V" unfolding artist_counts_values by blast
        then show ?thesis using h by blast
      qed
    qed
  next
    assume "\<forall>a. int (artist_count songs a) \<le> (int (length songs) + 1) div 2"
    then show "\<forall>v \<in> ?V. v \<le> (int (length songs) + 1) div 2"
      unfolding artist_counts_values by blast
  qed
  finally show ?thesis .
qed

lemma artist_count_le: "artist_count songs a \<le> length songs"
  by (simp add: artist_count_def)

text \<open>
  Claim C4. For every list of songs, every attempt cap and every sequence of random
  draws, \<^verbatim>\<open>shuffle_with_constraints\<close> returns a permutation of the songs it was given. When
  some artist (compared in lower case) has more than \<open>ceil(n/2) = (n + 1) div 2\<close> songs, the
  result is one run of \<^verbatim>\<open>random.shuffle\<close> on the input and the generator is left as that one
  run leaves it; when no artist has and every attempt up to the cap yields two adjacent
  songs of one artist, the result is the input in its original order.
\<close>

theorem shuffle_with_constraints_permutation:
  "mset (fst (shuffle_with_constraints max_attempts songs g)) = mset songs \<and>
   ((\<exists>a. int (artist_count songs a) > (int (length songs) + 1) div 2) \<longrightarrow>
      shuffle_with_constraints max_attempts songs g = random_shuffle songs g) \<and>
   ((\<forall>a. int (artist_count songs a) \<le> (int (length songs) + 1) div 2) \<and>
    all_attempts_fail (nat max_attempts) songs g \<longrightarrow>
      fst (shuffle_with_constraints max_attempts songs g) = songs)"
proof (cases "length songs \<le> 1")
  case True
  have "\<forall>a. int (artist_count songs a) \<le> (int (length songs) + 1) div 2"
    using True by (cases songs) (auto simp: artist_count_def)
  then have "\<not> (\<exists>a. int (artist_count songs a) > (int (length songs) + 1) div 2)"
    by (simp add: not_less)
  then show ?thesis using True by (simp add: shuffle_with_constraints_def)
next
  case False
  then have l: "1 < length songs" by simp
  note iff = is_arrangement_possible_iff[OF l]
  show ?thesis
  proof (cases "is_arrangement_possible songs")
    case True
    then have "\<not> (\<exists>a. int (artist_count songs a) > (int (length songs) + 1) div 2)"
      using iff by (simp add: not_less)
    then show ?thesis using False True
      by (simp add: shuffle_with_constraints_def shuffle_attempts_mset shuffle_attempts_fail)
  next
    case np: False
    then have "\<not> (\<forall>a. int (artist_count songs a) \<le> (int (length songs) + 1) div 2)"
      using iff by simp
    then show ?thesis using False np
      by (auto simp: shuffle_with_constraints_def random_shuffle_mset)
  qed
qed


theorem shuffle_with_constraints_permutation_witness:
  "int (artist_count songs_aaa [CHR 0xE9]) > (int (length songs_aaa) + 1) div 2 \<and>
   shuffle_with_constraints 1000 songs_aaa rng_01 = random_shuffle songs_aaa rng_01 \<and>
   map song_title (fst (shuffle_with_constraints 1000 songs_aaa rng_01)) = [''z'', ''y'', ''x''] \<and>
   (\<forall>a. int (artist_count songs_aab a) \<le> (int (length songs_aab) + 1) div 2) \<and>
   all_attempts_fail (nat 2) songs_aab rng_01 \<and>
   map song_title (fst (random_shuffle songs_aab rng_01)) = [''z'', ''y'', ''x''] \<and>
   fst (shuffle_with_constraints 2 songs_aab rng_01) = songs_aab"
proof -
  have c3: "int (artist_count songs_aaa [CHR 0xE9]) > (int (length songs_aaa) + 1) div 2"
    by (simp add: songs_aaa_def artist_count_def song_by_def Song_init_def lower_def
        lower_char_bits upper_letter_def Let_def)
  have c2: "\<forall>a. int (artist_count songs_aab a) \<le> (int (length songs_aab) + 1) div 2"
    by (auto simp: songs_aab_def artist_count_def song_by_def Song_init_def lower_def
        lower_char_bits upper_letter_def Let_def)
  have "all_attempts_fail (Suc (Suc 0)) songs_aab rng_01"
    by (simp add: songs_aab_def random_shuffle_def randbelow_def rng_01_def rng_of_def
        song_by_def Song_init_def lower_def lower_char_bits upper_letter_def Let_def)
  then have f: "all_attempts_fail (nat 2) songs_aab rng_01"
    by (simp add: numeral_2_eq_2)
  have s3: "map song_title (fst (random_shuffle songs_aaa rng_01)) = [''z'', ''y'', ''x'']"
    by (simp add: songs_aaa_def random_shuffle_def randbelow_def rng_01_def rng_of_def
        song_by_def Song_init_def)
  have s2: "map song_title (fst (random_shuffle songs_aab rng_01)) = [''z'', ''y'', ''x'']"
    by (simp add: songs_aab_def random_shuffle_def randbelow_def rng_01_def rng_of_def
        song_by_def Song_init_def)
  have e: "shuffle_with_constraints 1000 songs_aaa rng_01 = random_shuffle songs_aaa rng_01"
    using c3 shuffle_with_constraints_permutation[of 1000 songs_aaa rng_01] by blast
  have r: "fst (shuffle_with_constraints 2 songs_aab rng_01) = songs_aab"
    using c2 f shuffle_with_constraints_permutation[of 2 songs_aab rng_01] by blast
  show ?thesis using c3 c2 f s2 e r s3 by simp
qed

subsection \<open>SmartRecommender\<close>

lemma add_score_keys: "fst ` set (add_score d k v) = insert k (fst ` set d)"
proof -
  have "set (map fst (add_score d k v)) = insert k (set (map fst d))"
    unfolding add_score_def update_keys by auto
  then show ?thesis by simp
qed

lemma score_candidates_keys:
  "score_candidates r exclude active seed cands scores = Inr out \<Longrightarrow>
   \<forall>k \<in> fst ` set scores. allowed_candidate r exclude active k \<Longrightarrow>
   \<forall>k \<in> fst ` set out. allowed_candidate r exclude active k"
proof (induction cands arbitrary: scores)
  case Nil
  then show ?case by simp
next
  case (Cons c cands)
  show ?case
  proof (cases "allowed_candidate r exclude active c")
    case False
    then have "score_candidates r exclude active seed cands scores = Inr out"
      using Cons.prems(1) by (auto simp: allowed_candidate_def split: if_splits)
    then show ?thesis using Cons.IH Cons.prems(2) by blast
  next
    case True
    then obtain score where
      sc: "calculate_similarity_score r seed c = Inr score" and
      rest: "score_candidates r exclude active seed cands
               (if score > 0 then add_score scores c score else scores) = Inr out"
      using Cons.prems(1)
      by (cases "calculate_similarity_score r seed c") (auto simp: allowed_candidate_def)
    have "\<forall>k \<in> fst ` set (if score > 0 then add_score scores c score else scores).
            allowed_candidate r exclude active k"
      using True Cons.prems(2) by (auto simp only: add_score_keys split: if_splits)
    then show ?thesis using Cons.IH[OF rest] by blast
  qed
qed

lemma score_seeds_keys:
  "score_seeds r exclude active seeds scores = Inr out \<Longrightarrow>
   \<forall>k \<in> fst ` set scores. allowed_candidate r exclude active k \<Longrightarrow>
   \<forall>k \<in> fst ` set out. allowed_candidate r exclude active k"
proof (induction seeds arbitrary: scores)
  case Nil
  then show ?case by simp
next
  case (Cons s seeds)
  then obtain mid where
    a: "score_candidates r exclude active s
          (py_prefix (max_candidates_per_seed r) (get_similar_songs r s)) scores = Inr mid" and
    b: "score_seeds r exclude active seeds mid = Inr out"
    by (auto split: sum.splits)
  from score_candidates_keys[OF a Cons.prems(2)] Cons.IH[OF b] show ?case by blast
qed

lemma py_prefix_subset: "set (py_prefix k xs) \<subseteq> set xs"
  by (auto simp: py_prefix_def dest: in_set_takeD)

lemma active_ids_set:
  "set (active_ids songs) = {sid. sid \<noteq> [] \<and> (\<exists>song \<in> set songs. song_id song = Some sid)}"
  by (auto simp: active_ids_def split: option.splits if_splits)

lemma recommend_keys:
  assumes "recommend r sc tn ex = Inr recs" and "rec \<in> set recs"
  shows "allowed_candidate r ex
           (if ex then active_ids (playlist_songs_getter r) else []) (rec_song_id rec)"
proof -
  let ?active = "if ex then active_ids (playlist_songs_getter r) else []"
  let ?seeds = "collect_seeds (py_or sc (seed_count r)) (rev (play_window r)) []"
  show ?thesis
  proof (cases "?seeds = []")
    case True
    then show ?thesis using assms by (simp add: recommend_def Let_def)
  next
    case False
    then obtain scores where
      s: "score_seeds r ex ?active ?seeds [] = Inr scores" and
      r: "recs = map (\<lambda>(sid, score). \<lparr>rec_song_id = sid, rec_score = score\<rparr>)
                   (py_prefix (py_or tn (top_n r)) (sort_key (\<lambda>(sid, score). - score) scores))"
      using assms(1) by (auto simp: recommend_def Let_def split: sum.splits)
    have k: "\<forall>k \<in> fst ` set scores. allowed_candidate r ex ?active k"
      using score_seeds_keys[OF s] by simp
    from assms(2) r obtain sid score where
      "rec = \<lparr>rec_song_id = sid, rec_score = score\<rparr>"
      "(sid, score) \<in> set (py_prefix (py_or tn (top_n r)) (sort_key (\<lambda>(sid, score). - score) scores))"
      by auto
    then have "rec_song_id rec \<in> fst ` set scores"
      using py_prefix_subset[of "py_or tn (top_n r)" "sort_key (\<lambda>(sid, score). - score) scores"]
      by force
    then show ?thesis using k by blast
  qed
qed

lemma lower_rock: "lower ''Rock'' = ''rock''"
  by (simp add: lower_def lower_char_bits upper_letter_def Let_def)

lemma score_rock: "song_metadata r a = Some md_rock \<Longrightarrow> song_metadata r b = Some md_rock \<Longrightarrow>
   calculate_similarity_score r a b = Inr 1"
  by (simp add: calculate_similarity_score_def md_rock_def field_match_def get_lower_def get_number_def
      proximity_term_def lower_rock Let_def)

lemma rec_demo_fields:
  "play_window rec_demo = [(''s1'', 1)]"
  "played_set rec_demo = {''s1''}"
  "seed_count rec_demo = 5" "top_n rec_demo = 10" "max_candidates_per_seed rec_demo = 200"
  "skipped_tracker rec_demo = (\<lambda>sid. sid = ''s3'')"
  "active_ids (playlist_songs_getter rec_demo) = [''s4'']"
  "map song_id (playlist_songs_getter rec_demo) = [Some '''', Some ''s4'']"
  by (simp_all add: rec_demo_def SmartRecommender_init_def record_play_def deque_append_def
      active_ids_def Song_init_def)

lemma rec_demo_meta:
  "song_metadata rec_demo ''s1'' = Some md_rock"
  "song_metadata rec_demo '''' = Some md_rock"
  "song_metadata rec_demo ''s2'' = Some md_rock"
  by (simp_all add: rec_demo_def)

lemma rec_demo_similar:
  "get_similar_songs rec_demo ''s1'' = ['''', ''s2'', ''s3'', ''s4'']"
  by (simp add: get_similar_songs_def rec_demo_meta truthy_def md_rock_def)
     (simp add: rec_demo_def SmartRecommender_init_def record_play_def)

lemma rec_demo_scores:
  "score_seeds rec_demo True [''s4''] [''s1''] [] = Inr [('''', 1), (''s2'', 1)]"
  by (simp add: rec_demo_similar rec_demo_fields py_prefix_def score_rock rec_demo_meta
      add_score_def)

lemma rec_demo_recommend:
  assumes "sc = None \<or> sc = Some 0" and "tn = None \<or> tn = Some 0"
  shows "recommend rec_demo sc tn True
     = Inr [\<lparr>rec_song_id = '''', rec_score = 1\<rparr>, \<lparr>rec_song_id = ''s2'', rec_score = 1\<rparr>]"
  using assms
  by (auto simp: recommend_def py_or_def Let_def rec_demo_fields rec_demo_scores py_prefix_def
           simp del: score_seeds.simps)

text \<open>
  Claim C6, as the code has it. No recommendation that \<^verbatim>\<open>recommend\<close> returns carries a
  song id that is in the all-time played set or that the tracker reports as recently
  skipped, whatever its score; and with \<^verbatim>\<open>exclude_active_playlist\<close> set, none carries a
  non-empty song id of a song in the playlist snapshot. The snapshot ids are collected
  with \<^verbatim>\<open>if song.song_id\<close>, which leaves out the empty id along with \<^verbatim>\<open>None\<close>.
\<close>

theorem recommend_excludes:
  assumes "recommend r sc tn ex = Inr recs" and "rec \<in> set recs"
  shows "rec_song_id rec \<notin> played_set r \<and>
         \<not> skipped_tracker r (rec_song_id rec) \<and>
         (ex \<and> rec_song_id rec \<noteq> [] \<longrightarrow>
            (\<forall>song \<in> set (playlist_songs_getter r). song_id song \<noteq> Some (rec_song_id rec)))"
  using recommend_keys[OF assms]
  by (auto simp: allowed_candidate_def active_ids_set)

theorem recommend_excludes_witness:
  "recommend rec_demo None None True
     = Inr [\<lparr>rec_song_id = '''', rec_score = 1\<rparr>, \<lparr>rec_song_id = ''s2'', rec_score = 1\<rparr>] \<and>
   \<lparr>rec_song_id = ''s2'', rec_score = 1\<rparr>
     \<in> set [\<lparr>rec_song_id = '''', rec_score = 1\<rparr>, \<lparr>rec_song_id = ''s2'', rec_score = 1\<rparr>] \<and>
   ''s2'' \<notin> played_set rec_demo \<and> \<not> skipped_tracker rec_demo ''s2'' \<and>
   Some ''s2'' \<notin> set (map song_id (playlist_songs_getter rec_demo))"
  using recommend_excludes[of rec_demo None None True
      "[\<lparr>rec_song_id = '''', rec_score = 1\<rparr>, \<lparr>rec_song_id = ''s2'', rec_score = 1\<rparr>]"
      "\<lparr>rec_song_id = ''s2'', rec_score = 1\<rparr>"]
    rec_demo_recommend[of None None]
  by (simp add: rec_demo_fields)

text \<open>The claim as stated fails for the empty song id: the snapshot holds a song with the
  id \<^verbatim>\<open>""\<close>, and \<^verbatim>\<open>""\<close> is recommended.\<close>

theorem recommend_empty_id_counterexample:
  "map song_id (playlist_songs_getter rec_demo) = [Some '''', Some ''s4''] \<and>
   map_sum id (map rec_song_id) (recommend rec_demo None None True) = Inr ['''', ''s2'']"
  using rec_demo_recommend[of None None] by (simp add: rec_demo_fields)

text \<open>
  Claim C10. \<^verbatim>\<open>recommend\<close> combines each of \<^verbatim>\<open>seed_count\<close> and \<^verbatim>\<open>top_n\<close> with the configured
  value by \<^verbatim>\<open>or\<close>, so the argument 0 behaves as \<^verbatim>\<open>None\<close> does and as the configured value
  does; with the default configuration (\<^verbatim>\<open>seed_count=5\<close>, \<^verbatim>\<open>top_n=10\<close>) the call
  \<^verbatim>\<open>recommend(seed_count=0, top_n=0)\<close> returns a non-empty list.
\<close>

theorem recommend_zero_arguments:
  "recommend r (Some 0) tn ex = recommend r None tn ex \<and>
   recommend r sc (Some 0) ex = recommend r sc None ex \<and>
   recommend r None None ex = recommend r (Some (seed_count r)) (Some (top_n r)) ex \<and>
   seed_count rec_demo = 5 \<and> top_n rec_demo = 10 \<and>
   recommend rec_demo (Some 0) (Some 0) True
     = Inr [\<lparr>rec_song_id = '''', rec_score = 1\<rparr>, \<lparr>rec_song_id = ''s2'', rec_score = 1\<rparr>]"
  using rec_demo_recommend[of "Some 0" "Some 0"]
  by (simp add: recommend_def py_or_def rec_demo_fields)

end
